theory Spec2Isabelle
  imports Complex_Main "HOL-Library.Sublist" "HOL-Library.Char_ord" "HOL-Library.List_Lexorder"
begin

section \<open>Data model (darwincode/types/models.py)\<close>

text \<open>
  Python \<^verbatim>\<open>str\<close> is modelled as \<^typ>\<open>string\<close> (one \<^typ>\<open>char\<close> per character),
  Python \<^verbatim>\<open>int\<close> as \<^typ>\<open>int\<close>, and a finite Python \<^verbatim>\<open>float\<close> by the real number it
  denotes: scores are only compared with each other and with zero, and produced as the
  quotient of two counts.
\<close>

datatype agent_status = PENDING | RUNNING | SUCCESS | FAILURE | TIMEOUT | ERROR

datatype run_status = RUN_PENDING | RUN_RUNNING | COMPLETED | FAILED | CANCELLED

record hypothesis =
  h_generation :: int
  h_winner_id :: string
  h_analysis :: string
  h_prompt_delta :: string

record plan_step =
  ps_index :: int
  ps_description :: string
  ps_prompt :: string

record agent_task =
  t_id :: string
  t_generation :: int
  t_step_index :: int
  t_prompt :: string
  t_repo_snapshot_path :: string
  t_parent_hypotheses :: "hypothesis list"

record agent_result =
  r_task_id :: string
  r_status :: agent_status
  r_output :: string
  r_patch_path :: string
  r_duration_seconds :: real
  r_transcript_path :: "string option"

record eval_spec =
  es_command :: string
  es_timeout :: int
  es_success_criteria :: string
  es_expected_output :: "string option"
  es_protected_paths :: "string list"

record eval_result =
  e_task_id :: string
  e_passed :: bool
  e_score :: real
  e_details :: string

record generation_record =
  g_generation :: int
  g_step_index :: int
  g_tasks :: "agent_task list"
  g_results :: "agent_result list"
  g_eval_results :: "eval_result list"
  g_winner_id :: "string option"
  g_hypothesis :: "hypothesis option"

record run_state =
  rs_id :: string
  rs_status :: run_status
  rs_current_step :: int
  rs_current_generation :: int
  rs_plan_steps :: "plan_step list"
  rs_generations :: "generation_record list"
  rs_hypotheses :: "hypothesis list"

text \<open>The \<^verbatim>\<open>.value\<close> of the two enums.\<close>

fun agent_status_value :: "agent_status \<Rightarrow> string" where
  "agent_status_value PENDING = ''pending''"
| "agent_status_value RUNNING = ''running''"
| "agent_status_value SUCCESS = ''success''"
| "agent_status_value FAILURE = ''failure''"
| "agent_status_value TIMEOUT = ''timeout''"
| "agent_status_value ERROR = ''error''"

fun run_status_value :: "run_status \<Rightarrow> string" where
  "run_status_value RUN_PENDING = ''pending''"
| "run_status_value RUN_RUNNING = ''running''"
| "run_status_value COMPLETED = ''completed''"
| "run_status_value FAILED = ''failed''"
| "run_status_value CANCELLED = ''cancelled''"

text \<open>
  Exceptions are values. \<open>OutsideModel\<close> is not a Python exception: it marks the places
  where Python, which checks no types at run time, would go on with an object whose field
  holds a value of another type than the dataclass declares. No theorem below says what
  the program does there.
\<close>

datatype exn =
    JSONDecodeError
  | KeyError string
  | TypeError
  | ValueError
  | AttributeError
  | RuntimeError
  | TimeoutExpired
  | UnboundLocalError
  | KeyboardInterrupt
  | OutsideModel

text \<open>Constructors with the dataclasses' defaults, for concrete inputs.\<close>

definition mk_result :: "string \<Rightarrow> agent_status \<Rightarrow> string \<Rightarrow> agent_result" where
  "mk_result tid st out =
     \<lparr>r_task_id = tid, r_status = st, r_output = out, r_patch_path = [],
      r_duration_seconds = 0, r_transcript_path = None\<rparr>"

definition mk_eval :: "string \<Rightarrow> bool \<Rightarrow> real \<Rightarrow> eval_result" where
  "mk_eval tid p s = \<lparr>e_task_id = tid, e_passed = p, e_score = s, e_details = []\<rparr>"

section \<open>Analyzer.pick\_winner (darwincode/orchestrator/analyzer.py)\<close>

text \<open>
  Python's \<^verbatim>\<open>max(iterable, key=f)\<close> keeps the first item and replaces it only by an item
  whose key is strictly greater; on an empty iterable it raises \<^verbatim>\<open>ValueError\<close>.
\<close>

fun max_by_key :: "('a \<Rightarrow> real) \<Rightarrow> 'a \<Rightarrow> 'a list \<Rightarrow> 'a" where
  "max_by_key key best [] = best"
| "max_by_key key best (x # xs) = max_by_key key (if key best < key x then x else best) xs"

definition py_max :: "('a \<Rightarrow> real) \<Rightarrow> 'a list \<Rightarrow> exn + 'a" where
  "py_max key xs = (case xs of [] \<Rightarrow> Inl ValueError | x # rest \<Rightarrow> Inr (max_by_key key x rest))"

definition pick_winner :: "agent_result list \<Rightarrow> eval_result list \<Rightarrow> exn + string option" where
  "pick_winner results eval_results =
     (if eval_results = [] then Inr None
      else case py_max (\<lambda>x. e_score (snd x)) (zip results eval_results) of
             Inl err \<Rightarrow> Inl err
           | Inr best \<Rightarrow>
               if e_score (snd best) > 0 then Inr (Some (r_task_id (fst best)))
               else Inr None)"

section \<open>Partial-score extraction (darwincode/eval/runner.py, \_parse\_test\_score)\<close>

text \<open>
  \<^verbatim>\<open>re.search(r"(\d+) passed", output)\<close> returns the leftmost match. At a given start the
  greedy \<^verbatim>\<open>\d+\<close> takes the whole run of digits; giving digits back cannot help, because
  the character after a shorter run is a digit and not the space the pattern asks for. So
  there is a match at a start exactly when a non-empty run of digits begins there and is
  followed by a space and the keyword, and the group is the whole run. Digits are the ten
  ASCII digits; \<^verbatim>\<open>int\<close> reads the run in base ten (a run longer than the interpreter's
  limit on the digits of an integer, where \<^verbatim>\<open>int\<close> raises, is not modelled).
\<close>

definition is_digit :: "char \<Rightarrow> bool" where
  "is_digit c = (c \<in> set ''0123456789'')"

definition digit_value :: "char \<Rightarrow> nat" where
  "digit_value c = of_char c - 48"

definition int_of_digits :: "string \<Rightarrow> nat" where
  "int_of_digits ds = foldl (\<lambda>n c. 10 * n + digit_value c) 0 ds"

definition match_count :: "string \<Rightarrow> string \<Rightarrow> nat option" where
  "match_count kw s =
     (let ds = takeWhile is_digit s; rest = dropWhile is_digit s
      in if ds \<noteq> [] \<and> prefix (CHR '' '' # kw) rest then Some (int_of_digits ds) else None)"

fun search_count :: "string \<Rightarrow> string \<Rightarrow> nat option" where
  "search_count kw [] = None"
| "search_count kw (c # cs) =
     (case match_count kw (c # cs) of
        Some n \<Rightarrow> Some n
      | None \<Rightarrow> search_count kw cs)"

definition count_or_zero :: "nat option \<Rightarrow> nat" where
  "count_or_zero m = (case m of Some n \<Rightarrow> n | None \<Rightarrow> 0)"

definition parse_test_score :: "string \<Rightarrow> real" where
  "parse_test_score output =
     (let passed = count_or_zero (search_count ''passed'' output);
          failed = count_or_zero (search_count ''failed'' output);
          errors = count_or_zero (search_count ''error'' output);
          total = passed + failed + errors
      in if total > 0 then real passed / real total else 0)"


section \<open>EvalRunner.evaluate (darwincode/eval/runner.py)\<close>

text \<open>
  The world \<open>evaluate\<close> runs in. \<open>repo_exists\<close> and \<open>pristine_exists\<close> answer for a task's
  workspace; \<open>run_command\<close> is the scoring command run as a shell subprocess in the
  evaluation directory, whose outcome is an exit (return code, decoded stdout and stderr),
  the timeout, or another exception with its message. \<open>evaluate\<close> returns the
  \<open>EvalResult\<close> together with the list of subprocesses it started. Copying the repo and
  the protected files into the evaluation directory is taken to succeed.
\<close>

datatype eval_dir = RepoDir | MergedEvalDir

datatype proc_outcome =
    Exited "int option" string string
  | ProcTimeout
  | ProcException string

record eval_env =
  repo_exists :: "string \<Rightarrow> bool"
  pristine_exists :: "string \<Rightarrow> bool"
  run_command :: "string \<Rightarrow> eval_dir \<Rightarrow> string \<Rightarrow> proc_outcome"

type_synonym invocation = "string \<times> eval_dir \<times> string"

text \<open>\<^verbatim>\<open>str\<close> of an integer.\<close>

fun digits_of_nat :: "nat \<Rightarrow> nat \<Rightarrow> string" where
  "digits_of_nat 0 n = []"
| "digits_of_nat (Suc fuel) n =
     (if n < 10 then [char_of (48 + n)]
      else digits_of_nat fuel (n div 10) @ [char_of (48 + n mod 10)])"

definition str_of_int :: "int \<Rightarrow> string" where
  "str_of_int i =
     (if i < 0 then CHR ''-'' # digits_of_nat (Suc (nat (- i))) (nat (- i))
      else digits_of_nat (Suc (nat i)) (nat i))"

definition prepare_eval_dir :: "eval_env \<Rightarrow> string \<Rightarrow> eval_dir" where
  "prepare_eval_dir env task_id = (if \<not> pristine_exists env task_id then RepoDir else MergedEvalDir)"

text \<open>\<^verbatim>\<open>s[-n:]\<close>, the last \<open>n\<close> characters.\<close>

definition last_chars :: "nat \<Rightarrow> string \<Rightarrow> string" where
  "last_chars n s = drop (length s - n) s"

definition evaluate :: "eval_env \<Rightarrow> agent_result \<Rightarrow> eval_spec \<Rightarrow> eval_result \<times> invocation list" where
  "evaluate env result spec =
     (if r_status result \<notin> {SUCCESS, FAILURE} then
        (\<lparr>e_task_id = r_task_id result, e_passed = False, e_score = 0,
          e_details = ''Agent status: '' @ agent_status_value (r_status result) @ '', skipping eval''\<rparr>,
         [])
      else if \<not> repo_exists env (r_task_id result) then
        (\<lparr>e_task_id = r_task_id result, e_passed = False, e_score = 0,
          e_details = ''Repo directory not found''\<rparr>,
         [])
      else
        let dir = prepare_eval_dir env (r_task_id result);
            started = [(r_task_id result, dir, es_command spec)]
        in case run_command env (r_task_id result) dir (es_command spec) of
             ProcTimeout \<Rightarrow>
               (\<lparr>e_task_id = r_task_id result, e_passed = False, e_score = 0,
                 e_details = ''Eval timed out after '' @ str_of_int (es_timeout spec) @ ''s''\<rparr>,
                started)
           | ProcException msg \<Rightarrow>
               (\<lparr>e_task_id = r_task_id result, e_passed = False, e_score = 0,
                 e_details = ''Eval error: '' @ msg\<rparr>,
                started)
           | Exited returncode out err \<Rightarrow>
               let output = out @ [CHR 0x0A] @ err;
                   exit_code = (case returncode of None \<Rightarrow> 0 | Some c \<Rightarrow> c);
                   (passed, score) =
                     (if es_success_criteria spec = ''exit-code'' then
                        (exit_code = 0, if exit_code = 0 then 1 else parse_test_score output)
                      else if es_success_criteria spec = ''output-match'' then
                        let expected = (case es_expected_output spec of None \<Rightarrow> [] | Some x \<Rightarrow> x)
                        in (sublist expected output, if sublist expected output then 1 else 0)
                      else
                        (exit_code = 0, if exit_code = 0 then 1 else 0))
               in (\<lparr>e_task_id = r_task_id result, e_passed = passed, e_score = score,
                    e_details = last_chars 2000 output\<rparr>,
                   started))"

definition run_eval :: "eval_env \<Rightarrow> agent_result list \<Rightarrow> eval_spec \<Rightarrow> eval_result list \<times> invocation list" where
  "run_eval env results spec =
     (map (\<lambda>r. fst (evaluate env r spec)) results,
      concat (map (\<lambda>r. snd (evaluate env r spec)) results))"

text \<open>
  A world for concrete inputs: every workspace has its repo and no protected snapshot, and
  the scoring command always ends the same way. \<open>mk_spec\<close> is \<open>EvalSpec\<close> with its default
  timeout and no protected paths.
\<close>

definition const_env :: "proc_outcome \<Rightarrow> eval_env" where
  "const_env p =
     \<lparr>repo_exists = (\<lambda>_. True), pristine_exists = (\<lambda>_. False), run_command = (\<lambda>_ _ _. p)\<rparr>"

definition mk_spec :: "string \<Rightarrow> string \<Rightarrow> string option \<Rightarrow> eval_spec" where
  "mk_spec cmd criteria expected =
     \<lparr>es_command = cmd, es_timeout = 120, es_success_criteria = criteria,
      es_expected_output = expected, es_protected_paths = []\<rparr>"

section \<open>ClaudeCodeVendor.build\_prompt (darwincode/agents/claude\_code.py)\<close>

definition PROMPT_STRATEGIES :: "string list" where
  "PROMPT_STRATEGIES =
     [[],
      ''Think step by step. Break the problem down before writing code.'',
      ''Focus on writing minimal, correct code. Prioritize passing tests over completeness.'',
      ''Start by reading existing code carefully. Match the project's patterns and conventions.'',
      ''Consider edge cases. Write defensive code that handles unexpected inputs.'']"

text \<open>\<^verbatim>\<open>sep.join(parts)\<close>.\<close>

fun join :: "string \<Rightarrow> string list \<Rightarrow> string" where
  "join sep [] = []"
| "join sep [x] = x"
| "join sep (x # y # ys) = x @ sep @ join sep (y # ys)"

definition build_prompt :: "string \<Rightarrow> hypothesis list \<Rightarrow> nat \<Rightarrow> string" where
  "build_prompt base_prompt hypotheses variant_index =
     (let strategy = PROMPT_STRATEGIES ! (variant_index mod length PROMPT_STRATEGIES);
          parts = [base_prompt]
                  @ (if strategy \<noteq> [] then [''\<newline>Approach: '' @ strategy] else [])
                  @ (if hypotheses \<noteq> []
                     then [''\<newline>--- Learnings from previous attempts ---'']
                          @ map (\<lambda>h. ''- '' @ h_analysis h) hypotheses
                          @ [''Use these insights to improve your approach.'']
                     else [])
      in join ''\<newline>'' parts)"

section \<open>EvolutionEngine (darwincode/orchestrator/evolution.py)\<close>

text \<open>
  Task ids are \<^verbatim>\<open>"agent-"\<close> followed by the first eight hex digits of a fresh
  \<^verbatim>\<open>uuid.uuid4()\<close>. The source of randomness is a parameter: \<open>uuid_hex k\<close> is the
  eight digits of the \<open>k\<close>-th uuid drawn, and \<open>k0\<close> counts the uuids drawn before the call.
\<close>

definition create_initial_population ::
  "(nat \<Rightarrow> string) \<Rightarrow> nat \<Rightarrow> string \<Rightarrow> int \<Rightarrow> nat \<Rightarrow> agent_task list" where
  "create_initial_population uuid_hex k0 base_prompt step_index population_size =
     map (\<lambda>i. \<lparr>t_id = ''agent-'' @ uuid_hex (k0 + i), t_generation = 0,
                t_step_index = step_index, t_prompt = build_prompt base_prompt [] i,
                t_repo_snapshot_path = [], t_parent_hypotheses = []\<rparr>)
         [0..<population_size]"

definition evolve ::
  "(nat \<Rightarrow> string) \<Rightarrow> nat \<Rightarrow> string \<Rightarrow> int \<Rightarrow> int \<Rightarrow> nat \<Rightarrow> hypothesis list \<Rightarrow> agent_task list" where
  "evolve uuid_hex k0 base_prompt step_index generation population_size hypotheses =
     map (\<lambda>i. \<lparr>t_id = ''agent-'' @ uuid_hex (k0 + i), t_generation = generation,
                t_step_index = step_index, t_prompt = build_prompt base_prompt hypotheses i,
                t_repo_snapshot_path = [], t_parent_hypotheses = hypotheses\<rparr>)
         [0..<population_size]"

text \<open>A uuid source for concrete inputs: the \<open>k\<close>-th draw is \<open>k\<close> written with eight hex digits.\<close>

definition counting_uuid_hex :: "nat \<Rightarrow> string" where
  "counting_uuid_hex k = map (\<lambda>d. ''0123456789abcdef'' ! ((k div 16 ^ d) mod 16)) [7, 6, 5, 4, 3, 2, 1, 0]"

section \<open>JSON documents and json.loads\<close>

text \<open>
  The values \<^verbatim>\<open>json.loads\<close> produces: \<^verbatim>\<open>None\<close>, \<^verbatim>\<open>bool\<close>, \<^verbatim>\<open>int\<close>, \<^verbatim>\<open>float\<close> (a finite one by
  the real it denotes, and the three literals \<^verbatim>\<open>NaN\<close>, \<^verbatim>\<open>Infinity\<close>, \<^verbatim>\<open>-Infinity\<close>), \<^verbatim>\<open>str\<close>,
  \<^verbatim>\<open>list\<close> and \<^verbatim>\<open>dict\<close>. A dict is the list of its items in insertion order, with no key
  twice.
\<close>

datatype json =
    JNull
  | JBool bool
  | JInt int
  | JFloat real
  | JNaN
  | JPosInf
  | JNegInf
  | JStr string
  | JArr "json list"
  | JObj "(string \<times> json) list"

text \<open>\<^verbatim>\<open>d[k] = v\<close>: a key already there keeps its place and takes the new value.\<close>

fun dict_set :: "(string \<times> json) list \<Rightarrow> string \<Rightarrow> json \<Rightarrow> (string \<times> json) list" where
  "dict_set [] k v = [(k, v)]"
| "dict_set ((k', v') # kvs) k v = (if k' = k then (k', v) # kvs else (k', v') # dict_set kvs k v)"

definition is_json_ws :: "char \<Rightarrow> bool" where
  "is_json_ws c = (c \<in> set [CHR '' '', CHR 0x09, CHR 0x0A, CHR 0x0D])"

definition skip_ws :: "string \<Rightarrow> string" where
  "skip_ws s = dropWhile is_json_ws s"

definition hex_value :: "char \<Rightarrow> nat option" where
  "hex_value c =
     (if is_digit c then Some (of_char c - 48)
      else if c \<in> set ''abcdef'' then Some (of_char c - 87)
      else if c \<in> set ''ABCDEF'' then Some (of_char c - 55)
      else None)"

definition unescape :: "char \<Rightarrow> char option" where
  "unescape c =
     (if c = CHR 0x22 then Some (CHR 0x22)
      else if c = CHR 0x5C then Some (CHR 0x5C)
      else if c = CHR ''/'' then Some (CHR ''/'')
      else if c = CHR ''b'' then Some (CHR 0x08)
      else if c = CHR ''f'' then Some (CHR 0x0C)
      else if c = CHR ''n'' then Some (CHR 0x0A)
      else if c = CHR ''r'' then Some (CHR 0x0D)
      else if c = CHR ''t'' then Some (CHR 0x09)
      else None)"

text \<open>
  The body of a string literal, after its opening quote, in strict mode: a control
  character is an error. A \<^verbatim>\<open>\uXXXX\<close> escape for a code point the model's characters do not
  reach is outside the model.
\<close>

fun scan_string :: "string \<Rightarrow> string \<Rightarrow> exn + (string \<times> string)" where
  "scan_string [] acc = Inl JSONDecodeError"
| "scan_string (c # cs) acc =
     (if c = CHR 0x22 then Inr (rev acc, cs)
      else if c = CHR 0x5C then
        (case cs of
           [] \<Rightarrow> Inl JSONDecodeError
         | e # es \<Rightarrow>
             if e = CHR ''u'' then
               (case es of
                  h1 # h2 # h3 # h4 # rest \<Rightarrow>
                    (case (hex_value h1, hex_value h2, hex_value h3, hex_value h4) of
                       (Some a, Some b, Some c', Some d) \<Rightarrow>
                         if a = 0 \<and> b = 0 then scan_string rest (char_of (16 * c' + d) # acc)
                         else Inl OutsideModel
                     | _ \<Rightarrow> Inl JSONDecodeError)
                | _ \<Rightarrow> Inl JSONDecodeError)
             else
               (case unescape e of
                  None \<Rightarrow> Inl JSONDecodeError
                | Some ch \<Rightarrow> scan_string es (ch # acc)))
      else if (of_char c :: nat) < 32 then Inl JSONDecodeError
      else scan_string cs (c # acc))"

text \<open>
  A number at the start of the text, by the decoder's pattern
  \<^verbatim>\<open>(-?(?:0|[1-9][0-9]*))(\.[0-9]+)?([eE][-+]?[0-9]+)?\<close>: an \<^verbatim>\<open>int\<close> when it has neither
  fraction nor exponent, a \<^verbatim>\<open>float\<close> otherwise (its decimal value, unrounded).
\<close>

definition scan_number :: "string \<Rightarrow> (json \<times> string) option" where
  "scan_number s =
     (let (neg, s1) = (case s of c # r \<Rightarrow> if c = CHR ''-'' then (True, r) else (False, s) | [] \<Rightarrow> (False, s))
      in case s1 of
           [] \<Rightarrow> None
         | c # cs \<Rightarrow>
             if \<not> is_digit c then None
             else
               let (idigits, rest) =
                     (if c = CHR ''0'' then ([c], cs)
                      else (takeWhile is_digit s1, dropWhile is_digit s1));
                   (frac, rest2) =
                     (case rest of
                        d # r \<Rightarrow>
                          if d = CHR ''.'' \<and> takeWhile is_digit r \<noteq> []
                          then (Some (takeWhile is_digit r), dropWhile is_digit r)
                          else (None, rest)
                      | [] \<Rightarrow> (None, rest));
                   (expo, rest3) =
                     (case rest2 of
                        e # r \<Rightarrow>
                          if e = CHR ''e'' \<or> e = CHR ''E'' then
                            (let (sgn, r') =
                                   (case r of
                                      x # r'' \<Rightarrow>
                                        if x = CHR ''+'' then (1::int, r'')
                                        else if x = CHR ''-'' then (-1, r'')
                                        else (1, r)
                                    | [] \<Rightarrow> (1, r))
                             in if takeWhile is_digit r' \<noteq> []
                                then (Some (sgn * int (int_of_digits (takeWhile is_digit r'))),
                                      dropWhile is_digit r')
                                else (None, rest2))
                          else (None, rest2)
                      | [] \<Rightarrow> (None, rest2))
               in if frac = None \<and> expo = None then
                    Some (JInt ((if neg then -1 else 1) * int (int_of_digits idigits)), rest3)
                  else
                    let fd = (case frac of None \<Rightarrow> [] | Some ds \<Rightarrow> ds);
                        e = (case expo of None \<Rightarrow> 0 | Some x \<Rightarrow> x);
                        mant = real (int_of_digits idigits) + real (int_of_digits fd) / 10 ^ length fd;
                        scaled = (if 0 \<le> e then mant * 10 ^ nat e else mant / 10 ^ nat (- e))
                    in Some (JFloat ((if neg then -1 else 1) * scaled), rest3))"

text \<open>
  The decoder proper. \<open>parse_value\<close> reads one value at the start of the text (as
  \<^verbatim>\<open>scan_once\<close>), \<open>parse_elems\<close> the elements of an array after its bracket and
  \<open>parse_members\<close> the members of an object after its brace; each returns the value and
  the text left. The first argument bounds the recursion and is given large enough by
  \<open>json_loads\<close>; running out of it is outside the model.
\<close>

fun parse_value :: "nat \<Rightarrow> string \<Rightarrow> exn + (json \<times> string)"
  and parse_elems :: "nat \<Rightarrow> json list \<Rightarrow> string \<Rightarrow> exn + (json \<times> string)"
  and parse_members :: "nat \<Rightarrow> (string \<times> json) list \<Rightarrow> string \<Rightarrow> exn + (json \<times> string)" where
  "parse_value 0 s = Inl OutsideModel"
| "parse_value (Suc n) s =
     (case s of
        [] \<Rightarrow> Inl JSONDecodeError
      | c # cs \<Rightarrow>
          if c = CHR 0x22 then
            (case scan_string cs [] of
               Inl e \<Rightarrow> Inl e
             | Inr (str, rest) \<Rightarrow> Inr (JStr str, rest))
          else if c = CHR ''{'' then
            (case skip_ws cs of
               [] \<Rightarrow> Inl JSONDecodeError
             | d # rest \<Rightarrow>
                 if d = CHR ''}'' then Inr (JObj [], rest) else parse_members n [] (d # rest))
          else if c = CHR ''['' then
            (case skip_ws cs of
               [] \<Rightarrow> Inl JSONDecodeError
             | d # rest \<Rightarrow>
                 if d = CHR '']'' then Inr (JArr [], rest) else parse_elems n [] (d # rest))
          else if prefix ''null'' s then Inr (JNull, drop 4 s)
          else if prefix ''true'' s then Inr (JBool True, drop 4 s)
          else if prefix ''false'' s then Inr (JBool False, drop 5 s)
          else
            (case scan_number s of
               Some r \<Rightarrow> Inr r
             | None \<Rightarrow>
                 if prefix ''NaN'' s then Inr (JNaN, drop 3 s)
                 else if prefix ''Infinity'' s then Inr (JPosInf, drop 8 s)
                 else if prefix ''-Infinity'' s then Inr (JNegInf, drop 9 s)
                 else Inl JSONDecodeError))"
| "parse_elems 0 acc s = Inl OutsideModel"
| "parse_elems (Suc n) acc s =
     (case parse_value n s of
        Inl e \<Rightarrow> Inl e
      | Inr (v, rest) \<Rightarrow>
          (case skip_ws rest of
             [] \<Rightarrow> Inl JSONDecodeError
           | d # r \<Rightarrow>
               if d = CHR '']'' then Inr (JArr (acc @ [v]), r)
               else if d = CHR '','' then parse_elems n (acc @ [v]) (skip_ws r)
               else Inl JSONDecodeError))"
| "parse_members 0 acc s = Inl OutsideModel"
| "parse_members (Suc n) acc s =
     (case s of
        [] \<Rightarrow> Inl JSONDecodeError
      | q # cs \<Rightarrow>
          if q \<noteq> CHR 0x22 then Inl JSONDecodeError
          else
            (case scan_string cs [] of
               Inl e \<Rightarrow> Inl e
             | Inr (key, rest) \<Rightarrow>
                 (case skip_ws rest of
                    [] \<Rightarrow> Inl JSONDecodeError
                  | colon # r \<Rightarrow>
                      if colon \<noteq> CHR '':'' then Inl JSONDecodeError
                      else
                        (case parse_value n (skip_ws r) of
                           Inl e \<Rightarrow> Inl e
                         | Inr (v, rest2) \<Rightarrow>
                             (case skip_ws rest2 of
                                [] \<Rightarrow> Inl JSONDecodeError
                              | d # r2 \<Rightarrow>
                                  if d = CHR ''}'' then Inr (JObj (dict_set acc key v), r2)
                                  else if d = CHR '','' then
                                    parse_members n (dict_set acc key v) (skip_ws r2)
                                  else Inl JSONDecodeError)))))"

definition json_loads :: "string \<Rightarrow> exn + json" where
  "json_loads s =
     (case parse_value (2 * length s + 2) (skip_ws s) of
        Inl e \<Rightarrow> Inl e
      | Inr (v, rest) \<Rightarrow> if skip_ws rest = [] then Inr v else Inl JSONDecodeError)"

section \<open>Reading documents the way the deserialisers do\<close>

definition bind_e :: "exn + 'a \<Rightarrow> ('a \<Rightarrow> exn + 'b) \<Rightarrow> exn + 'b" where
  "bind_e m f = (case m of Inl e \<Rightarrow> Inl e | Inr x \<Rightarrow> f x)"

text \<open>A list comprehension whose element expression may raise: the first exception ends it.\<close>

fun map_e :: "('a \<Rightarrow> exn + 'b) \<Rightarrow> 'a list \<Rightarrow> exn + 'b list" where
  "map_e f [] = Inr []"
| "map_e f (x # xs) = bind_e (f x) (\<lambda>y. bind_e (map_e f xs) (\<lambda>ys. Inr (y # ys)))"

text \<open>
  \<^verbatim>\<open>data[key]\<close> with a string key: \<^verbatim>\<open>KeyError\<close> on a dict without the key,
  \<^verbatim>\<open>TypeError\<close> on anything that is not a dict.
\<close>

definition subscript :: "json \<Rightarrow> string \<Rightarrow> exn + json" where
  "subscript d k =
     (case d of
        JObj kvs \<Rightarrow> (case map_of kvs k of None \<Rightarrow> Inl (KeyError k) | Some v \<Rightarrow> Inr v)
      | _ \<Rightarrow> Inl TypeError)"

text \<open>\<^verbatim>\<open>data.get(key, default)\<close>: only a dict has the method.\<close>

definition get_default :: "json \<Rightarrow> string \<Rightarrow> json \<Rightarrow> exn + json" where
  "get_default d k dflt =
     (case d of
        JObj kvs \<Rightarrow> Inr (case map_of kvs k of None \<Rightarrow> dflt | Some v \<Rightarrow> v)
      | _ \<Rightarrow> Inl AttributeError)"

text \<open>\<^verbatim>\<open>for x in data\<close>: a list gives its elements, a string its characters, a dict its keys.\<close>

definition iterate :: "json \<Rightarrow> exn + json list" where
  "iterate d =
     (case d of
        JArr xs \<Rightarrow> Inr xs
      | JStr s \<Rightarrow> Inr (map (\<lambda>c. JStr [c]) s)
      | JObj kvs \<Rightarrow> Inr (map (\<lambda>kv. JStr (fst kv)) kvs)
      | _ \<Rightarrow> Inl TypeError)"

definition truthy :: "json \<Rightarrow> bool" where
  "truthy d =
     (case d of
        JNull \<Rightarrow> False
      | JBool b \<Rightarrow> b
      | JInt i \<Rightarrow> i \<noteq> 0
      | JFloat r \<Rightarrow> r \<noteq> 0
      | JStr s \<Rightarrow> s \<noteq> []
      | JArr xs \<Rightarrow> xs \<noteq> []
      | JObj kvs \<Rightarrow> kvs \<noteq> []
      | _ \<Rightarrow> True)"

text \<open>
  Python stores whatever value the document holds. The model's fields are typed, so a
  value of another type than the dataclass declares is outside the model.
\<close>

definition as_str :: "json \<Rightarrow> exn + string" where
  "as_str d = (case d of JStr s \<Rightarrow> Inr s | _ \<Rightarrow> Inl OutsideModel)"

definition as_int :: "json \<Rightarrow> exn + int" where
  "as_int d = (case d of JInt i \<Rightarrow> Inr i | _ \<Rightarrow> Inl OutsideModel)"

definition as_float :: "json \<Rightarrow> exn + real" where
  "as_float d = (case d of JFloat r \<Rightarrow> Inr r | JInt i \<Rightarrow> Inr (real_of_int i) | _ \<Rightarrow> Inl OutsideModel)"

definition as_bool :: "json \<Rightarrow> exn + bool" where
  "as_bool d = (case d of JBool b \<Rightarrow> Inr b | _ \<Rightarrow> Inl OutsideModel)"

definition as_opt_str :: "json \<Rightarrow> exn + string option" where
  "as_opt_str d = (case d of JNull \<Rightarrow> Inr None | JStr s \<Rightarrow> Inr (Some s) | _ \<Rightarrow> Inl OutsideModel)"

text \<open>\<^verbatim>\<open>RunStatus(value)\<close> and \<^verbatim>\<open>AgentStatus(value)\<close>: \<^verbatim>\<open>ValueError\<close> unless the value is a member's.\<close>

definition run_status_of :: "json \<Rightarrow> exn + run_status" where
  "run_status_of d =
     (case d of
        JStr s \<Rightarrow>
          if s = ''pending'' then Inr RUN_PENDING
          else if s = ''running'' then Inr RUN_RUNNING
          else if s = ''completed'' then Inr COMPLETED
          else if s = ''failed'' then Inr FAILED
          else if s = ''cancelled'' then Inr CANCELLED
          else Inl ValueError
      | _ \<Rightarrow> Inl ValueError)"

definition agent_status_of :: "json \<Rightarrow> exn + agent_status" where
  "agent_status_of d =
     (case d of
        JStr s \<Rightarrow>
          if s = ''pending'' then Inr PENDING
          else if s = ''running'' then Inr RUNNING
          else if s = ''success'' then Inr SUCCESS
          else if s = ''failure'' then Inr FAILURE
          else if s = ''timeout'' then Inr TIMEOUT
          else if s = ''error'' then Inr ERROR
          else Inl ValueError
      | _ \<Rightarrow> Inl ValueError)"

section \<open>Run state persistence (darwincode/state/run\_state.py)\<close>

definition serialize_hypothesis :: "hypothesis \<Rightarrow> json" where
  "serialize_hypothesis h =
     JObj [(''generation'', JInt (h_generation h)),
           (''winner_id'', JStr (h_winner_id h)),
           (''analysis'', JStr (h_analysis h)),
           (''prompt_delta'', JStr (h_prompt_delta h))]"

definition serialize_gen :: "generation_record \<Rightarrow> json" where
  "serialize_gen gen =
     JObj [(''generation'', JInt (g_generation gen)),
           (''step_index'', JInt (g_step_index gen)),
           (''tasks'',
            JArr (map (\<lambda>t. JObj [(''id'', JStr (t_id t)),
                                  (''generation'', JInt (t_generation t)),
                                  (''step_index'', JInt (t_step_index t)),
                                  (''prompt'', JStr (t_prompt t)),
                                  (''repo_snapshot_path'', JStr (t_repo_snapshot_path t))])
                      (g_tasks gen))),
           (''results'',
            JArr (map (\<lambda>r. JObj [(''task_id'', JStr (r_task_id r)),
                                  (''status'', JStr (agent_status_value (r_status r))),
                                  (''output'', JStr (take 1000 (r_output r))),
                                  (''patch_path'', JStr (r_patch_path r)),
                                  (''duration_seconds'', JFloat (r_duration_seconds r))])
                      (g_results gen))),
           (''eval_results'',
            JArr (map (\<lambda>e. JObj [(''task_id'', JStr (e_task_id e)),
                                  (''passed'', JBool (e_passed e)),
                                  (''score'', JFloat (e_score e)),
                                  (''details'', JStr (take 1000 (e_details e)))])
                      (g_eval_results gen))),
           (''winner_id'', (case g_winner_id gen of None \<Rightarrow> JNull | Some w \<Rightarrow> JStr w)),
           (''hypothesis'',
            (case g_hypothesis gen of None \<Rightarrow> JNull | Some h \<Rightarrow> serialize_hypothesis h))]"

definition serialize_state :: "run_state \<Rightarrow> json" where
  "serialize_state state =
     JObj [(''id'', JStr (rs_id state)),
           (''status'', JStr (run_status_value (rs_status state))),
           (''current_step'', JInt (rs_current_step state)),
           (''current_generation'', JInt (rs_current_generation state)),
           (''plan_steps'',
            JArr (map (\<lambda>s. JObj [(''index'', JInt (ps_index s)),
                                  (''description'', JStr (ps_description s)),
                                  (''prompt'', JStr (ps_prompt s))])
                      (rs_plan_steps state))),
           (''generations'', JArr (map serialize_gen (rs_generations state))),
           (''hypotheses'', JArr (map serialize_hypothesis (rs_hypotheses state)))]"

definition deserialize_hypothesis :: "json \<Rightarrow> exn + hypothesis" where
  "deserialize_hypothesis data =
     bind_e (bind_e (subscript data ''generation'') as_int) (\<lambda>generation.
     bind_e (bind_e (subscript data ''winner_id'') as_str) (\<lambda>winner_id.
     bind_e (bind_e (subscript data ''analysis'') as_str) (\<lambda>analysis.
     bind_e (bind_e (subscript data ''prompt_delta'') as_str) (\<lambda>prompt_delta.
     Inr \<lparr>h_generation = generation, h_winner_id = winner_id, h_analysis = analysis,
          h_prompt_delta = prompt_delta\<rparr>))))"

definition deserialize_task :: "json \<Rightarrow> exn + agent_task" where
  "deserialize_task t =
     bind_e (bind_e (subscript t ''id'') as_str) (\<lambda>tid.
     bind_e (bind_e (subscript t ''generation'') as_int) (\<lambda>generation.
     bind_e (bind_e (subscript t ''step_index'') as_int) (\<lambda>step_index.
     bind_e (bind_e (subscript t ''prompt'') as_str) (\<lambda>prompt.
     bind_e (bind_e (get_default t ''repo_snapshot_path'' (JStr [])) as_str) (\<lambda>snapshot.
     Inr \<lparr>t_id = tid, t_generation = generation, t_step_index = step_index, t_prompt = prompt,
          t_repo_snapshot_path = snapshot, t_parent_hypotheses = []\<rparr>)))))"

definition deserialize_result :: "json \<Rightarrow> exn + agent_result" where
  "deserialize_result r =
     bind_e (bind_e (subscript r ''task_id'') as_str) (\<lambda>task_id.
     bind_e (bind_e (subscript r ''status'') agent_status_of) (\<lambda>status.
     bind_e (bind_e (subscript r ''output'') as_str) (\<lambda>output.
     bind_e (bind_e (subscript r ''patch_path'') as_str) (\<lambda>patch_path.
     bind_e (bind_e (subscript r ''duration_seconds'') as_float) (\<lambda>duration.
     Inr \<lparr>r_task_id = task_id, r_status = status, r_output = output, r_patch_path = patch_path,
          r_duration_seconds = duration, r_transcript_path = None\<rparr>)))))"

definition deserialize_eval :: "json \<Rightarrow> exn + eval_result" where
  "deserialize_eval e =
     bind_e (bind_e (subscript e ''task_id'') as_str) (\<lambda>task_id.
     bind_e (bind_e (subscript e ''passed'') as_bool) (\<lambda>passed.
     bind_e (bind_e (subscript e ''score'') as_float) (\<lambda>score.
     bind_e (bind_e (subscript e ''details'') as_str) (\<lambda>details.
     Inr \<lparr>e_task_id = task_id, e_passed = passed, e_score = score, e_details = details\<rparr>))))"

definition deserialize_gen :: "json \<Rightarrow> exn + generation_record" where
  "deserialize_gen data =
     bind_e (bind_e (subscript data ''generation'') as_int) (\<lambda>generation.
     bind_e (bind_e (subscript data ''step_index'') as_int) (\<lambda>step_index.
     bind_e (bind_e (bind_e (get_default data ''tasks'' (JArr [])) iterate) (map_e deserialize_task)) (\<lambda>tasks.
     bind_e (bind_e (bind_e (get_default data ''results'' (JArr [])) iterate) (map_e deserialize_result)) (\<lambda>results.
     bind_e (bind_e (bind_e (get_default data ''eval_results'' (JArr [])) iterate) (map_e deserialize_eval)) (\<lambda>eval_results.
     bind_e (bind_e (get_default data ''winner_id'' JNull) as_opt_str) (\<lambda>winner_id.
     bind_e (bind_e (get_default data ''hypothesis'' JNull) (\<lambda>h.
               if truthy h
               then bind_e (bind_e (subscript data ''hypothesis'') deserialize_hypothesis) (\<lambda>x. Inr (Some x))
               else Inr None)) (\<lambda>hypothesis.
     Inr \<lparr>g_generation = generation, g_step_index = step_index, g_tasks = tasks,
          g_results = results, g_eval_results = eval_results, g_winner_id = winner_id,
          g_hypothesis = hypothesis\<rparr>)))))))"

definition deserialize_plan_step :: "json \<Rightarrow> exn + plan_step" where
  "deserialize_plan_step s =
     bind_e (bind_e (subscript s ''index'') as_int) (\<lambda>index.
     bind_e (bind_e (subscript s ''description'') as_str) (\<lambda>description.
     bind_e (bind_e (subscript s ''prompt'') as_str) (\<lambda>prompt.
     Inr \<lparr>ps_index = index, ps_description = description, ps_prompt = prompt\<rparr>)))"

definition deserialize_state :: "json \<Rightarrow> exn + run_state" where
  "deserialize_state data =
     bind_e (bind_e (subscript data ''id'') as_str) (\<lambda>rid.
     bind_e (bind_e (subscript data ''status'') run_status_of) (\<lambda>status.
     bind_e (bind_e (subscript data ''current_step'') as_int) (\<lambda>current_step.
     bind_e (bind_e (subscript data ''current_generation'') as_int) (\<lambda>current_generation.
     bind_e (bind_e (bind_e (get_default data ''plan_steps'' (JArr [])) iterate) (map_e deserialize_plan_step)) (\<lambda>plan_steps.
     bind_e (bind_e (bind_e (get_default data ''generations'' (JArr [])) iterate) (map_e deserialize_gen)) (\<lambda>generations.
     bind_e (bind_e (bind_e (get_default data ''hypotheses'' (JArr [])) iterate) (map_e deserialize_hypothesis)) (\<lambda>hypotheses.
     Inr \<lparr>rs_id = rid, rs_status = status, rs_current_step = current_step,
          rs_current_generation = current_generation, rs_plan_steps = plan_steps,
          rs_generations = generations, rs_hypotheses = hypotheses\<rparr>)))))))"

text \<open>
  The store directory: its \<^verbatim>\<open>*.json\<close> files by stem (the run id), each file by what
  \<^verbatim>\<open>path.read_text()\<close> and \<^verbatim>\<open>json.loads\<close> make of it. \<open>JsonText d\<close> is a text that decodes to
  the document \<open>d\<close>; such is the text \<^verbatim>\<open>json.dumps(d, indent=2)\<close> writes. \<open>BrokenText\<close> is a
  text the decoder rejects, \<open>BadBytes\<close> a file whose bytes are no text at all
  (\<^verbatim>\<open>UnicodeDecodeError\<close>, a \<^verbatim>\<open>ValueError\<close>).
\<close>

datatype stored_file = JsonText json | BrokenText | BadBytes

type_synonym store = "(string \<times> stored_file) list"

definition read_json :: "stored_file \<Rightarrow> exn + json" where
  "read_json f = (case f of JsonText d \<Rightarrow> Inr d | BrokenText \<Rightarrow> Inl JSONDecodeError | BadBytes \<Rightarrow> Inl ValueError)"

fun write_file :: "store \<Rightarrow> string \<Rightarrow> stored_file \<Rightarrow> store" where
  "write_file [] name f = [(name, f)]"
| "write_file ((n, g) # rest) name f =
     (if n = name then (n, f) # rest else (n, g) # write_file rest name f)"

definition save :: "store \<Rightarrow> run_state \<Rightarrow> store" where
  "save st state = write_file st (rs_id state) (JsonText (serialize_state state))"

definition load :: "store \<Rightarrow> string \<Rightarrow> exn + run_state option" where
  "load st run_id =
     (case map_of st run_id of
        None \<Rightarrow> Inr None
      | Some f \<Rightarrow> bind_e (read_json f) (\<lambda>data. bind_e (deserialize_state data) (\<lambda>s. Inr (Some s))))"

text \<open>
  \<^verbatim>\<open>list_runs\<close> walks the files in the order of their sorted paths and appends each run it
  can load; \<^verbatim>\<open>JSONDecodeError\<close> and \<^verbatim>\<open>KeyError\<close> are caught and the file skipped, any other
  exception leaves the loop.
\<close>

fun list_runs_loop :: "stored_file list \<Rightarrow> run_state list \<Rightarrow> exn + run_state list" where
  "list_runs_loop [] runs = Inr runs"
| "list_runs_loop (f # fs) runs =
     (case bind_e (read_json f) deserialize_state of
        Inr s \<Rightarrow> list_runs_loop fs (runs @ [s])
      | Inl JSONDecodeError \<Rightarrow> list_runs_loop fs runs
      | Inl (KeyError k) \<Rightarrow> list_runs_loop fs runs
      | Inl e \<Rightarrow> Inl e)"

definition list_runs :: "store \<Rightarrow> exn + run_state list" where
  "list_runs st = list_runs_loop (map snd (sort_key (\<lambda>entry. fst entry @ ''.json'') st)) []"

text \<open>
  What a state is after a trip through the store: texts cut to their first 1000
  characters, and the two fields the documents do not carry at their defaults.
\<close>

definition persisted_task :: "agent_task \<Rightarrow> agent_task" where
  "persisted_task t = t\<lparr>t_parent_hypotheses := []\<rparr>"

definition persisted_result :: "agent_result \<Rightarrow> agent_result" where
  "persisted_result r = r\<lparr>r_output := take 1000 (r_output r), r_transcript_path := None\<rparr>"

definition persisted_eval :: "eval_result \<Rightarrow> eval_result" where
  "persisted_eval e = e\<lparr>e_details := take 1000 (e_details e)\<rparr>"

definition persisted_gen :: "generation_record \<Rightarrow> generation_record" where
  "persisted_gen g =
     g\<lparr>g_tasks := map persisted_task (g_tasks g),
       g_results := map persisted_result (g_results g),
       g_eval_results := map persisted_eval (g_eval_results g)\<rparr>"

definition persisted_state :: "run_state \<Rightarrow> run_state" where
  "persisted_state s = s\<lparr>rs_generations := map persisted_gen (rs_generations s)\<rparr>"

text \<open>
  States for concrete inputs. \<open>full_state\<close> is the state of
  \<^verbatim>\<open>test_save_and_load_full_state\<close> (tests/test\_state.py); \<open>evolved_state\<close> is a state
  after a second generation, whose task carries the hypothesis it was evolved from and
  whose result has a transcript, as \<open>evolve\<close> and the job manager produce them.
\<close>

definition good_hypothesis :: hypothesis where
  "good_hypothesis =
     \<lparr>h_generation = 0, h_winner_id = ''a-001'', h_analysis = ''Good approach'',
      h_prompt_delta = ''Be more specific''\<rparr>"

definition full_state :: run_state where
  "full_state =
     \<lparr>rs_id = ''full-run'', rs_status = COMPLETED, rs_current_step = 1, rs_current_generation = 2,
      rs_plan_steps =
        [\<lparr>ps_index = 0, ps_description = ''Step 1'', ps_prompt = ''Do step 1''\<rparr>,
         \<lparr>ps_index = 1, ps_description = ''Step 2'', ps_prompt = ''Do step 2''\<rparr>],
      rs_generations =
        [\<lparr>g_generation = 0, g_step_index = 0,
          g_tasks = [\<lparr>t_id = ''a-001'', t_generation = 0, t_step_index = 0, t_prompt = ''Fix it'',
                      t_repo_snapshot_path = ''/tmp/snap'', t_parent_hypotheses = []\<rparr>],
          g_results = [\<lparr>r_task_id = ''a-001'', r_status = SUCCESS, r_output = ''Done'',
                        r_patch_path = ''/tmp/patch.diff'', r_duration_seconds = 30,
                        r_transcript_path = None\<rparr>],
          g_eval_results = [\<lparr>e_task_id = ''a-001'', e_passed = True, e_score = 1,
                             e_details = ''All tests passed''\<rparr>],
          g_winner_id = Some ''a-001'', g_hypothesis = Some good_hypothesis\<rparr>],
      rs_hypotheses = [good_hypothesis]\<rparr>"

definition evolved_state :: run_state where
  "evolved_state =
     \<lparr>rs_id = ''evolved-run'', rs_status = RUN_RUNNING, rs_current_step = 0,
      rs_current_generation = 1,
      rs_plan_steps = [\<lparr>ps_index = 0, ps_description = ''Step 1'', ps_prompt = ''Do step 1''\<rparr>],
      rs_generations =
        [\<lparr>g_generation = 1, g_step_index = 0,
          g_tasks = [\<lparr>t_id = ''a-002'', t_generation = 1, t_step_index = 0, t_prompt = ''Fix it'',
                      t_repo_snapshot_path = [], t_parent_hypotheses = [good_hypothesis]\<rparr>],
          g_results = [\<lparr>r_task_id = ''a-002'', r_status = SUCCESS, r_output = ''Done'',
                        r_patch_path = ''/tmp/patch.diff'', r_duration_seconds = 30,
                        r_transcript_path = Some ''/tmp/raw.jsonl''\<rparr>],
          g_eval_results = [\<lparr>e_task_id = ''a-002'', e_passed = False, e_score = 0,
                             e_details = ''1 failed''\<rparr>],
          g_winner_id = None, g_hypothesis = None\<rparr>],
      rs_hypotheses = [good_hypothesis]\<rparr>"

text \<open>Run documents for concrete inputs: a run as every test saves it, and a document
  whose status is none of \<open>RunStatus\<close>.\<close>

definition empty_run :: "string \<Rightarrow> run_state" where
  "empty_run rid =
     \<lparr>rs_id = rid, rs_status = COMPLETED, rs_current_step = 0, rs_current_generation = 0,
      rs_plan_steps = [], rs_generations = [], rs_hypotheses = []\<rparr>"

definition bad_status_document :: json where
  "bad_status_document =
     JObj [(''id'', JStr ''run-1''), (''status'', JStr ''done''),
           (''current_step'', JInt 0), (''current_generation'', JInt 0)]"

section \<open>String methods\<close>

text \<open>
  \<^verbatim>\<open>str.strip()\<close> and \<^verbatim>\<open>str.rstrip()\<close> remove the characters for which \<^verbatim>\<open>isspace()\<close> holds:
  among the model's characters, codes 9 to 13, 28 to 32, 133 and 160.
\<close>

definition is_py_space :: "char \<Rightarrow> bool" where
  "is_py_space c = ((of_char c :: nat) \<in> set [9, 10, 11, 12, 13, 28, 29, 30, 31, 32, 133, 160])"

definition rstrip :: "string \<Rightarrow> string" where
  "rstrip s = rev (dropWhile is_py_space (rev s))"

definition strip :: "string \<Rightarrow> string" where
  "strip s = rstrip (dropWhile is_py_space s)"

text \<open>\<^verbatim>\<open>s.split("\n")\<close>: never empty.\<close>

fun split_lines :: "string \<Rightarrow> string list" where
  "split_lines [] = [[]]"
| "split_lines (c # cs) =
     (if c = CHR 0x0A then [] # split_lines cs
      else (case split_lines cs of
              l # ls \<Rightarrow> (c # l) # ls
            | [] \<Rightarrow> [[c]]))"

section \<open>The oracle (darwincode/orchestrator/llm.py)\<close>

text \<open>
  The \<^verbatim>\<open>claude\<close> command line is the world's: its \<open>k\<close>-th run with a prompt either raises
  (\<^verbatim>\<open>subprocess.TimeoutExpired\<close>, or another exception) or exits with a return code,
  stdout and stderr. \<open>claude_query\<close> returns a string; a \<^verbatim>\<open>"result"\<close> that is not a string
  is outside the model.
\<close>

datatype cli_outcome = CliExited int string string | CliRaised exn

definition claude_query :: "(nat \<Rightarrow> string \<Rightarrow> cli_outcome) \<Rightarrow> nat \<Rightarrow> string \<Rightarrow> exn + string" where
  "claude_query cli k prompt =
     (case cli k prompt of
        CliRaised e \<Rightarrow> Inl e
      | CliExited returncode out err \<Rightarrow>
          if returncode \<noteq> 0 then Inl RuntimeError
          else
            (case json_loads out of
               Inr (JObj kvs) \<Rightarrow>
                 (case map_of kvs ''result'' of
                    None \<Rightarrow> Inr out
                  | Some v \<Rightarrow> as_str v)
             | Inr other \<Rightarrow> Inr out
             | Inl JSONDecodeError \<Rightarrow> Inr out
             | Inl e \<Rightarrow> Inl e))"

section \<open>Analyzer.analyze (darwincode/orchestrator/analyzer.py)\<close>

text \<open>
  \<^verbatim>\<open>ANALYSIS_PROMPT.format(prompt=..., results_text=...)\<close>. The format of a score with two
  decimals, \<^verbatim>\<open>f"{score:.2f}"\<close>, rounds a binary float and is a parameter, \<open>fmt_score\<close>.
\<close>

definition analysis_prompt :: "string \<Rightarrow> string \<Rightarrow> string" where
  \<open>analysis_prompt prompt results_text =
     ''You are analyzing the results of multiple AI coding agents that attempted the same task.\<newline>''
   @ ''Each agent took a different approach. Analyze why the top performers did better.\<newline>''
   @ ''\<newline>''
   @ ''Task prompt: '' @ prompt @ ''\<newline>''
   @ ''\<newline>''
   @ ''Results (sorted by eval score, best first):\<newline>''
   @ results_text @ ''\<newline>''
   @ ''\<newline>''
   @ ''Based on this analysis:\<newline>''
   @ ''1. Explain WHY the winning approach was better (be specific about code strategies, not vague).\<newline>''
   @ ''2. Identify what the losers did wrong or differently.\<newline>''
   @ ''3. Suggest what prompt modifications could help future agents perform better.\<newline>''
   @ ''\<newline>''
   @ ''Respond in JSON format:\<newline>''
   @ ''{\<newline>''
   @ ''    "analysis": "Why the winner succeeded (2-3 sentences)",\<newline>''
   @ ''    "prompt_delta": "Specific prompt additions/modifications for next generation"\<newline>''
   @ ''}\<newline>''\<close>

definition str_of_bool :: "bool \<Rightarrow> string" where
  "str_of_bool b = (if b then ''True'' else ''False'')"

definition result_block :: "(real \<Rightarrow> string) \<Rightarrow> agent_result \<times> eval_result \<Rightarrow> string" where
  "result_block fmt_score p =
     ''\<newline>--- Agent '' @ r_task_id (fst p) @ '' (score: '' @ fmt_score (e_score (snd p)) @ '') ---\<newline>''
   @ ''Status: '' @ agent_status_value (r_status (fst p)) @ ''\<newline>''
   @ ''Eval passed: '' @ str_of_bool (e_passed (snd p)) @ ''\<newline>''
   @ ''Output excerpt: '' @ take 500 (r_output (fst p)) @ ''\<newline>''
   @ ''Eval details: '' @ take 500 (e_details (snd p)) @ ''\<newline>''"

text \<open>
  \<^verbatim>\<open>paired.sort(key=lambda x: x[1].score, reverse=True)\<close> is a stable sort by descending
  score, which \<open>sort_key\<close> on the negated score is.
\<close>

definition sort_by_score :: "(agent_result \<times> eval_result) list \<Rightarrow> (agent_result \<times> eval_result) list" where
  "sort_by_score paired = sort_key (\<lambda>x. - e_score (snd x)) paired"

text \<open>The fence: if the stripped text starts with three backquotes, its first and last lines go.\<close>

definition strip_fence :: "string \<Rightarrow> string" where
  "strip_fence text =
     (if prefix ''```'' (strip text)
      then join ''\<newline>'' (butlast (tl (split_lines (strip text))))
      else text)"

definition analyze ::
  "(nat \<Rightarrow> string \<Rightarrow> cli_outcome) \<Rightarrow> (real \<Rightarrow> string) \<Rightarrow> nat \<Rightarrow> string \<Rightarrow> agent_result list \<Rightarrow>
   eval_result list \<Rightarrow> int \<Rightarrow> exn + hypothesis" where
  "analyze cli fmt_score k prompt results eval_results generation =
     (let paired = sort_by_score (zip results eval_results);
          results_text = concat (map (result_block fmt_score) paired)
      in bind_e (claude_query cli k (analysis_prompt prompt results_text)) (\<lambda>text.
         bind_e (json_loads (strip_fence text)) (\<lambda>data.
         let winner_id = (case paired of [] \<Rightarrow> [] | p # ps \<Rightarrow> r_task_id (fst p))
         in bind_e (bind_e (get_default data ''analysis'' (JStr [])) as_str) (\<lambda>analysis.
            bind_e (bind_e (get_default data ''prompt_delta'' (JStr [])) as_str) (\<lambda>prompt_delta.
            Inr \<lparr>h_generation = generation, h_winner_id = winner_id, h_analysis = analysis,
                 h_prompt_delta = prompt_delta\<rparr>)))))"

section \<open>Planner (darwincode/orchestrator/planner.py)\<close>

text \<open>
  \<^verbatim>\<open>DECOMPOSE_PROMPT.format(plan=plan)\<close>. The dash after \<^verbatim>\<open>Be specific in the prompt\<close> is
  U+2014 in the source and stands here as the three bytes of its UTF-8 form; the text
  only goes to the oracle.
\<close>

definition decompose_prompt :: "string \<Rightarrow> string" where
  \<open>decompose_prompt plan =
     ''You are a software engineering planner. Given a high-level coding task, decompose it into ''
   @ ''ordered implementation steps. Each step should be independently implementable and testable.\<newline>''
   @ ''\<newline>''
   @ ''Output a JSON array of steps. Each step has:\<newline>''
   @ ''- "index": step number (0-based)\<newline>''
   @ ''- "description": short description of what this step accomplishes\<newline>''
   @ ''- "prompt": detailed prompt that a coding agent should receive to implement this step\<newline>''
   @ ''\<newline>''
   @ ''Be specific in the prompt '' @ [CHR 0xE2, CHR 0x80, CHR 0x94]
   @ '' include file paths, function signatures, and expected behavior where possible.\<newline>''
   @ ''\<newline>''
   @ ''IMPORTANT: Respond ONLY with the raw JSON array. No markdown, no explanation, no code fences.\<newline>''
   @ ''\<newline>''
   @ ''Task:\<newline>''
   @ plan @ ''\<newline>''\<close>

text \<open>
  \<^verbatim>\<open>re.search(r"\[.*\]", text, re.DOTALL)\<close>: from the first opening bracket to the last
  closing bracket after it, if there is one.
\<close>

definition search_brackets :: "string \<Rightarrow> string option" where
  "search_brackets text =
     (let from_open = dropWhile (\<lambda>c. c \<noteq> CHR ''['') text;
          matched = rev (dropWhile (\<lambda>c. c \<noteq> CHR '']'') (rev from_open))
      in if matched = [] then None else Some matched)"

definition extract_json_array :: "string \<Rightarrow> exn + json" where
  "extract_json_array text0 =
     (let text1 = strip text0;
          text2 = (if prefix ''```'' text1
                   then (let t = join ''\<newline>'' (tl (split_lines text1))
                         in if suffix ''```'' (rstrip t)
                            then take (length (rstrip t) - 3) (rstrip t) else t)
                   else text1)
      in case json_loads text2 of
           Inr v \<Rightarrow> Inr v
         | Inl JSONDecodeError \<Rightarrow>
             (case search_brackets text2 of
                None \<Rightarrow> Inl ValueError
              | Some m \<Rightarrow>
                  (case json_loads m of
                     Inr v \<Rightarrow> Inr v
                   | Inl JSONDecodeError \<Rightarrow> Inl ValueError
                   | Inl e \<Rightarrow> Inl e))
         | Inl e \<Rightarrow> Inl e)"

definition decompose :: "(nat \<Rightarrow> string \<Rightarrow> cli_outcome) \<Rightarrow> nat \<Rightarrow> string \<Rightarrow> exn + plan_step list" where
  "decompose cli k plan =
     bind_e (claude_query cli k (decompose_prompt plan)) (\<lambda>text.
     bind_e (extract_json_array text) (\<lambda>steps_data.
     bind_e (iterate steps_data) (map_e deserialize_plan_step)))"

section \<open>Orchestrator (darwincode/orchestrator/orchestrator.py)\<close>

text \<open>
  What the orchestrator is configured with and what it runs against. The workflow
  engine's \<open>execute_generation\<close> dispatches the tasks to the cluster and is the world's:
  its \<open>k\<close>-th call with a population returns the results or raises. \<open>run_eval\<close> is the
  engine's loop over \<open>evaluate\<close>, in the world \<open>eval_world\<close>.
\<close>

record env =
  plan :: string
  max_generations :: nat
  population_size :: nat
  eval :: eval_spec
  uuid_hex :: "nat \<Rightarrow> string"
  claude_cli :: "nat \<Rightarrow> string \<Rightarrow> cli_outcome"
  fmt_score :: "real \<Rightarrow> string"
  ensure_ready :: "exn option"
  execute_generation :: "nat \<Rightarrow> agent_task list \<Rightarrow> exn + agent_result list"
  eval_world :: eval_env

text \<open>
  What the orchestrator changes: its \<open>RunState\<close>, the store's files, and the records of
  its calls on the world: the uuids drawn, the oracle calls made, the populations
  dispatched, the scoring commands started, the winners applied to the repository and
  whether the engine was told to cancel.
\<close>

record world =
  state :: run_state
  files :: store
  uuids_drawn :: nat
  cli_calls :: nat
  dispatched :: "agent_task list list"
  commands :: "invocation list"
  applied :: "string list"
  cancelled :: bool

definition save_state :: "world \<Rightarrow> world" where
  "save_state w = w\<lparr>files := save (files w) (state w)\<rparr>"

text \<open>How one pass of the loop body of \<open>_evolve_step\<close> ends, when it does not raise.\<close>

datatype gen_outcome = Return "string option" | Next "hypothesis list" "string option"

definition make_population :: "env \<Rightarrow> int \<Rightarrow> string \<Rightarrow> nat \<Rightarrow> hypothesis list \<Rightarrow> world \<Rightarrow> agent_task list" where
  "make_population cfg step_index base_prompt gen hypotheses w =
     (if gen = 0
      then create_initial_population (uuid_hex cfg) (uuids_drawn w) base_prompt step_index
             (population_size cfg)
      else evolve (uuid_hex cfg) (uuids_drawn w) base_prompt step_index (int gen)
             (population_size cfg) hypotheses)"

definition best_eval :: "eval_result list \<Rightarrow> eval_result option" where
  "best_eval eval_results =
     (case eval_results of [] \<Rightarrow> None | e # es \<Rightarrow> Some (max_by_key e_score e es))"

definition append_record :: "generation_record \<Rightarrow> world \<Rightarrow> world" where
  "append_record record w =
     save_state (w\<lparr>state := (state w)\<lparr>rs_generations := rs_generations (state w) @ [record]\<rparr>\<rparr>)"

text \<open>The rest of the loop body when the best evaluation did not pass.\<close>

definition analyze_and_record ::
  "env \<Rightarrow> string \<Rightarrow> nat \<Rightarrow> hypothesis list \<Rightarrow> agent_result list \<Rightarrow> eval_result list \<Rightarrow>
   generation_record \<Rightarrow> string option \<Rightarrow> world \<Rightarrow> (exn + gen_outcome) \<times> world" where
  "analyze_and_record cfg base_prompt gen hypotheses results eval_results record winner_id w =
     (if int gen < int (max_generations cfg) - 1 then
        (case analyze (claude_cli cfg) (fmt_score cfg) (cli_calls w) base_prompt results eval_results
                (int gen) of
           Inl e \<Rightarrow> (Inl e, w\<lparr>cli_calls := cli_calls w + 1\<rparr>)
         | Inr h \<Rightarrow>
             let w1 = w\<lparr>cli_calls := cli_calls w + 1,
                        state := (state w)\<lparr>rs_hypotheses := rs_hypotheses (state w) @ [h]\<rparr>\<rparr>
             in (Inr (Next (hypotheses @ [h]) winner_id),
                 append_record (record\<lparr>g_hypothesis := Some h\<rparr>) w1))
      else (Inr (Next hypotheses winner_id), append_record record w))"

definition evolve_generation ::
  "env \<Rightarrow> int \<Rightarrow> string \<Rightarrow> nat \<Rightarrow> hypothesis list \<Rightarrow> world \<Rightarrow> (exn + gen_outcome) \<times> world" where
  "evolve_generation cfg step_index base_prompt gen hypotheses w =
     (let w1 = save_state (w\<lparr>state := (state w)\<lparr>rs_current_generation := int gen\<rparr>\<rparr>);
          tasks = make_population cfg step_index base_prompt gen hypotheses w1;
          w2 = w1\<lparr>uuids_drawn := uuids_drawn w1 + population_size cfg,
                  dispatched := dispatched w1 @ [tasks]\<rparr>
      in case execute_generation cfg (length (dispatched w1)) tasks of
           Inl e \<Rightarrow> (Inl e, w2)
         | Inr results \<Rightarrow>
             let eval_results = fst (run_eval (eval_world cfg) results (eval cfg));
                 w3 = w2\<lparr>commands := commands w2 @ snd (run_eval (eval_world cfg) results (eval cfg))\<rparr>
             in case pick_winner results eval_results of
                  Inl e \<Rightarrow> (Inl e, w3)
                | Inr winner_id \<Rightarrow>
                    let record = \<lparr>g_generation = int gen, g_step_index = step_index,
                                  g_tasks = tasks, g_results = results,
                                  g_eval_results = eval_results, g_winner_id = winner_id,
                                  g_hypothesis = None\<rparr>
                    in case best_eval eval_results of
                         None \<Rightarrow>
                           analyze_and_record cfg base_prompt gen hypotheses results eval_results
                             record winner_id w3
                       | Some b \<Rightarrow>
                           if e_passed b then
                             (Inr (Return (Some (e_task_id b))),
                              append_record (record\<lparr>g_winner_id := Some (e_task_id b)\<rparr>) w3)
                           else
                             analyze_and_record cfg base_prompt gen hypotheses results eval_results
                               record winner_id w3)"

text \<open>
  \<^verbatim>\<open>for gen in range(max_generations)\<close>, over the generations still to run; \<open>hypotheses\<close> and
  \<open>winner_id\<close> are the loop's two local variables. The loop ends by a \<open>Return\<close> from its
  body, by an exception, or when the generations are used up (\<open>Next\<close>).
\<close>

fun evolve_gens ::
  "env \<Rightarrow> int \<Rightarrow> string \<Rightarrow> nat list \<Rightarrow> hypothesis list \<Rightarrow> string option \<Rightarrow> world \<Rightarrow>
   (exn + gen_outcome) \<times> world" where
  "evolve_gens cfg step_index base_prompt [] hypotheses winner_id w =
     (Inr (Next hypotheses winner_id), w)"
| "evolve_gens cfg step_index base_prompt (gen # gens) hypotheses winner_id w =
     (case evolve_generation cfg step_index base_prompt gen hypotheses w of
        (Inr (Next hypotheses' winner_id'), w') \<Rightarrow>
          evolve_gens cfg step_index base_prompt gens hypotheses' winner_id' w'
      | other \<Rightarrow> other)"

text \<open>
  \<open>_evolve_step\<close>. With no generation to run, the final \<^verbatim>\<open>return winner_id\<close> reads a
  variable never assigned.
\<close>

definition evolve_step :: "env \<Rightarrow> int \<Rightarrow> string \<Rightarrow> world \<Rightarrow> (exn + string option) \<times> world" where
  "evolve_step cfg step_index base_prompt w =
     (if max_generations cfg = 0 then (Inl UnboundLocalError, w)
      else case evolve_gens cfg step_index base_prompt [0..<max_generations cfg] [] None w of
             (Inl e, w') \<Rightarrow> (Inl e, w')
           | (Inr (Return v), w') \<Rightarrow> (Inr v, w')
           | (Inr (Next hypotheses winner_id), w') \<Rightarrow> (Inr winner_id, w'))"

text \<open>The steps of \<open>run\<close>, one after the other; a winner id that is not empty is applied.\<close>

fun run_steps :: "env \<Rightarrow> plan_step list \<Rightarrow> world \<Rightarrow> (exn + unit) \<times> world" where
  "run_steps cfg [] w = (Inr (), w)"
| "run_steps cfg (step # steps) w =
     (let w1 = save_state (w\<lparr>state := (state w)\<lparr>rs_current_step := ps_index step\<rparr>\<rparr>)
      in case evolve_step cfg (ps_index step) (ps_prompt step) w1 of
           (Inl e, w2) \<Rightarrow> (Inl e, w2)
         | (Inr winner_id, w2) \<Rightarrow>
             (case winner_id of
                Some (c # cs) \<Rightarrow> run_steps cfg steps (w2\<lparr>applied := applied w2 @ [c # cs]\<rparr>)
              | _ \<Rightarrow> run_steps cfg steps w2))"

definition run_body :: "env \<Rightarrow> world \<Rightarrow> (exn + unit) \<times> world" where
  "run_body cfg w =
     (case ensure_ready cfg of
        Some e \<Rightarrow> (Inl e, w)
      | None \<Rightarrow>
          (case decompose (claude_cli cfg) (cli_calls w) (plan cfg) of
             Inl e \<Rightarrow> (Inl e, w\<lparr>cli_calls := cli_calls w + 1\<rparr>)
           | Inr steps \<Rightarrow>
               let w1 = save_state (w\<lparr>cli_calls := cli_calls w + 1,
                                      state := (state w)\<lparr>rs_plan_steps := steps\<rparr>\<rparr>)
               in case run_steps cfg steps w1 of
                    (Inl e, w2) \<Rightarrow> (Inl e, w2)
                  | (Inr u, w2) \<Rightarrow>
                      (Inr (), save_state (w2\<lparr>state := (state w2)\<lparr>rs_status := COMPLETED\<rparr>\<rparr>))))"

text \<open>
  \<open>run\<close>: the body between the two handlers. \<open>None\<close> is a run that left the model.
\<close>

definition run :: "env \<Rightarrow> world \<Rightarrow> world option" where
  "run cfg w =
     (let w0 = save_state (w\<lparr>state := (state w)\<lparr>rs_status := RUN_RUNNING\<rparr>\<rparr>)
      in case run_body cfg w0 of
           (Inr u, w1) \<Rightarrow> Some w1
         | (Inl OutsideModel, w1) \<Rightarrow> None
         | (Inl KeyboardInterrupt, w1) \<Rightarrow>
             Some (save_state (w1\<lparr>cancelled := True,
                                  state := (state w1)\<lparr>rs_status := CANCELLED\<rparr>\<rparr>))
         | (Inl e, w1) \<Rightarrow>
             Some (save_state (w1\<lparr>state := (state w1)\<lparr>rs_status := FAILED\<rparr>\<rparr>)))"

definition initial_world :: "string \<Rightarrow> world" where
  "initial_world run_id =
     \<lparr>state = \<lparr>rs_id = run_id, rs_status = RUN_PENDING, rs_current_step = 0,
                rs_current_generation = 0, rs_plan_steps = [], rs_generations = [],
                rs_hypotheses = []\<rparr>,
      files = [], uuids_drawn = 0, cli_calls = 0, dispatched = [], commands = [],
      applied = [], cancelled = False\<rparr>"

section \<open>Worlds for concrete inputs\<close>

text \<open>
  A format of scores for concrete worlds: two decimals, rounding the real halves up.
\<close>

definition two_decimals :: "real \<Rightarrow> string" where
  "two_decimals r =
     (let n = nat \<lfloor>100 * \<bar>r\<bar> + 1 / 2\<rfloor>
      in (if r < 0 then ''-'' else []) @ str_of_int (int (n div 100)) @ ''.''
         @ [char_of (48 + n div 10 mod 10), char_of (48 + n mod 10)])"

text \<open>The command line answering from a script: its \<open>k\<close>-th run prints the \<open>k\<close>-th reply.\<close>

definition scripted_cli :: "string list \<Rightarrow> nat \<Rightarrow> string \<Rightarrow> cli_outcome" where
  "scripted_cli replies k prompt =
     (if k < length replies then CliExited 0 (replies ! k) [] else CliRaised TimeoutExpired)"

definition plan_reply :: string where
  \<open>plan_reply = ''[{"index": 0, "description": "Fix", "prompt": "Fix the bug"}]''\<close>

definition analysis_reply :: string where
  \<open>analysis_reply = ''{"analysis": "Tests fail", "prompt_delta": "Read the tests"}''\<close>


definition scenario :: "(nat \<Rightarrow> string \<Rightarrow> cli_outcome) \<Rightarrow> eval_env \<Rightarrow> env" where
  "scenario cli ew =
     \<lparr>plan = ''Fix the bug'', max_generations = 2, population_size = 3,
      eval = mk_spec ''pytest'' ''exit-code'' None, uuid_hex = counting_uuid_hex,
      claude_cli = cli, fmt_score = two_decimals, ensure_ready = None,
      execute_generation = (\<lambda>k tasks. Inr (map (\<lambda>t. mk_result (t_id t) SUCCESS ''done'') tasks)),
      eval_world = ew\<rparr>"

text \<open>Oracle replies that are no JSON: bare, and inside a code fence.\<close>

definition refusal_reply :: string where
  "refusal_reply = ''I could not analyze this.''"

definition fenced_refusal_reply :: string where
  "fenced_refusal_reply = ''```'' @ ''text'' @ [CHR 0x0A] @ refusal_reply @ [CHR 0x0A] @ ''```''"

section \<open>Properties of pick\_winner\<close>

lemma max_by_key_split:
  "\<exists>pre post. best # xs = pre @ max_by_key key best xs # post
     \<and> (\<forall>x\<in>set pre. key x < key (max_by_key key best xs))
     \<and> (\<forall>x\<in>set post. key x \<le> key (max_by_key key best xs))"
proof (induction xs arbitrary: best)
  case Nil
  show ?case by (rule exI [of _ "[]"], rule exI [of _ "[]"]) simp
next
  case (Cons y ys)
  show ?case
  proof (cases "key best < key y")
    case True
    define m where "m = max_by_key key y ys"
    have step: "max_by_key key best (y # ys) = m"
      using True by (simp add: m_def)
    from Cons.IH [of y] obtain pre post where
      s: "y # ys = pre @ m # post"
      and lo: "\<forall>x\<in>set pre. key x < key m"
      and hi: "\<forall>x\<in>set post. key x \<le> key m"
      unfolding m_def by blast
    have "y \<in> set pre \<or> y = m"
      using s by (cases pre) auto
    then have ge: "key y \<le> key m"
      using lo by auto
    have "best # y # ys = (best # pre) @ m # post"
      using s by simp
    moreover have "\<forall>x\<in>set (best # pre). key x < key m"
      using lo ge True by auto
    ultimately show ?thesis
      unfolding step using hi by blast
  next
    case False
    define m where "m = max_by_key key best ys"
    have step: "max_by_key key best (y # ys) = m"
      using False by (simp add: m_def)
    from Cons.IH [of best] obtain pre post where
      s: "best # ys = pre @ m # post"
      and lo: "\<forall>x\<in>set pre. key x < key m"
      and hi: "\<forall>x\<in>set post. key x \<le> key m"
      unfolding m_def by blast
    show ?thesis
    proof (cases pre)
      case Nil
      with s have b: "m = best" and p: "post = ys" by auto
      have "best # y # ys = [] @ m # (y # ys)"
        using b by simp
      moreover have "\<forall>x\<in>set (y # ys). key x \<le> key m"
        using hi p b False by auto
      moreover have "\<forall>x\<in>set []. key x < key m"
        by simp
      ultimately show ?thesis
        unfolding step by blast
    next
      case (Cons p ps)
      with s have p: "p = best" and ys: "ys = ps @ m # post" by auto
      have lt: "key best < key m"
        using lo Cons p by simp
      have "best # y # ys = (best # y # ps) @ m # post"
        using ys by simp
      moreover have "\<forall>x\<in>set (best # y # ps). key x < key m"
        using lo Cons p lt False by auto
      ultimately show ?thesis
        unfolding step using hi by blast
    qed
  qed
qed

lemma pick_winner_empty: "pick_winner results [] = Inr None"
  by (simp add: pick_winner_def)

lemma pick_winner_paired:
  assumes len: "length results = length evals" and ne: "evals \<noteq> []"
  shows "\<exists>i<length evals.
           (\<forall>j<i. e_score (evals ! j) < e_score (evals ! i))
         \<and> (\<forall>j<length evals. e_score (evals ! j) \<le> e_score (evals ! i))
         \<and> pick_winner results evals =
             Inr (if 0 < e_score (evals ! i) then Some (r_task_id (results ! i)) else None)"
proof -
  let ?key = "\<lambda>x::agent_result \<times> eval_result. e_score (snd x)"
  from len ne obtain p ps where z: "zip results evals = p # ps"
    by (cases results; cases evals) auto
  define m where "m = max_by_key ?key p ps"
  from max_by_key_split [of p ps ?key] obtain pre post where
    s: "p # ps = pre @ m # post"
    and lo: "\<forall>x\<in>set pre. ?key x < ?key m"
    and hi: "\<forall>x\<in>set post. ?key x \<le> ?key m"
    unfolding m_def by blast
  define i where "i = length pre"
  have zs: "zip results evals = pre @ m # post"
    using z s by simp
  have li: "i < length evals"
    using arg_cong [OF zs, of length] len by (simp add: i_def)
  have nth: "\<And>j. j < length evals \<Longrightarrow> (pre @ m # post) ! j = (results ! j, evals ! j)"
    using zs len by (metis length_zip min.idem nth_zip)
  have mi: "m = (results ! i, evals ! i)"
    using nth [OF li] by (simp add: i_def)
  have before: "\<forall>j<i. e_score (evals ! j) < e_score (evals ! i)"
  proof (intro allI impI)
    fix j assume j: "j < i"
    then have "(pre @ m # post) ! j = pre ! j" by (simp add: i_def nth_append)
    moreover have "(pre @ m # post) ! j = (results ! j, evals ! j)"
      using nth j li by simp
    ultimately have "(results ! j, evals ! j) \<in> set pre"
      using j by (simp add: i_def)
    with lo have "?key (results ! j, evals ! j) < ?key m" by blast
    then show "e_score (evals ! j) < e_score (evals ! i)" by (simp add: mi)
  qed
  have all: "\<forall>j<length evals. e_score (evals ! j) \<le> e_score (evals ! i)"
  proof (intro allI impI)
    fix j assume j: "j < length evals"
    have "j < length (pre @ m # post)"
      using j arg_cong [OF zs, of length] len by simp
    then have "(pre @ m # post) ! j \<in> set (pre @ m # post)"
      by (rule nth_mem)
    then have "(results ! j, evals ! j) \<in> set pre \<union> {m} \<union> set post"
      using nth [OF j] by simp
    with lo hi have "?key (results ! j, evals ! j) \<le> ?key m" by fastforce
    then show "e_score (evals ! j) \<le> e_score (evals ! i)" by (simp add: mi)
  qed
  have "pick_winner results evals =
      Inr (if 0 < e_score (evals ! i) then Some (r_task_id (results ! i)) else None)"
    using ne z mi by (simp add: pick_winner_def py_max_def m_def)
  with li before all show ?thesis by blast
qed

text \<open>
  C1. For results paired with evaluations (lists of the same length, scores in the data
  model's range, so not negative), \<open>pick_winner\<close> returns \<open>None\<close> for the empty list and
  when the maximum score is exactly zero; otherwise it returns the task id of the first
  entry, in input order, that has the maximum score.
\<close>

theorem pick_winner_spec:
  assumes "length results = length evals"
    and "\<forall>e\<in>set evals. 0 \<le> e_score e"
  shows "(evals = [] \<longrightarrow> pick_winner results evals = Inr None)
    \<and> (evals \<noteq> [] \<and> Max (e_score ` set evals) = 0 \<longrightarrow> pick_winner results evals = Inr None)
    \<and> (evals \<noteq> [] \<and> Max (e_score ` set evals) \<noteq> 0 \<longrightarrow>
         (\<exists>i<length evals.
            e_score (evals ! i) = Max (e_score ` set evals)
          \<and> (\<forall>j<i. e_score (evals ! j) < e_score (evals ! i))
          \<and> pick_winner results evals = Inr (Some (r_task_id (results ! i)))))"
proof (cases "evals = []")
  case True
  then show ?thesis by (simp add: pick_winner_empty)
next
  case False
  from pick_winner_paired [OF assms(1) False] obtain i where
    i: "i < length evals"
    and first: "\<forall>j<i. e_score (evals ! j) < e_score (evals ! i)"
    and top: "\<forall>j<length evals. e_score (evals ! j) \<le> e_score (evals ! i)"
    and res: "pick_winner results evals =
       Inr (if 0 < e_score (evals ! i) then Some (r_task_id (results ! i)) else None)"
    by blast
  have fin: "finite (e_score ` set evals)" and ne: "e_score ` set evals \<noteq> {}"
    using False by simp_all
  have mem: "e_score (evals ! i) \<in> e_score ` set evals"
    using i by simp
  have "\<forall>s\<in>e_score ` set evals. s \<le> e_score (evals ! i)"
    using top by (auto simp: in_set_conv_nth)
  then have mx: "Max (e_score ` set evals) = e_score (evals ! i)"
    using fin mem by (intro Max_eqI) auto
  have nonneg: "0 \<le> e_score (evals ! i)"
    using assms(2) i by simp
  show ?thesis
  proof (intro conjI impI)
    assume "evals = []"
    with False show "pick_winner results evals = Inr None" by simp
  next
    assume "evals \<noteq> [] \<and> Max (e_score ` set evals) = 0"
    then show "pick_winner results evals = Inr None"
      using res mx by simp
  next
    assume "evals \<noteq> [] \<and> Max (e_score ` set evals) \<noteq> 0"
    then have "0 < e_score (evals ! i)"
      using mx nonneg by simp
    then have "pick_winner results evals = Inr (Some (r_task_id (results ! i)))"
      using res by simp
    then show "\<exists>i<length evals.
            e_score (evals ! i) = Max (e_score ` set evals)
          \<and> (\<forall>j<i. e_score (evals ! j) < e_score (evals ! i))
          \<and> pick_winner results evals = Inr (Some (r_task_id (results ! i)))"
      using i mx first by auto
  qed
qed

theorem pick_winner_spec_witness:
  "length [mk_result ''a'' SUCCESS '''', mk_result ''b'' SUCCESS '''', mk_result ''c'' SUCCESS '''']
     = length [mk_eval ''a'' False 0.4, mk_eval ''b'' False 0.8, mk_eval ''c'' False 0.8]
   \<and> list_all (\<lambda>e. 0 \<le> e_score e)
        [mk_eval ''a'' False 0.4, mk_eval ''b'' False 0.8, mk_eval ''c'' False 0.8]
   \<and> pick_winner [mk_result ''a'' SUCCESS '''', mk_result ''b'' SUCCESS '''', mk_result ''c'' SUCCESS '''']
        [mk_eval ''a'' False 0.4, mk_eval ''b'' False 0.8, mk_eval ''c'' False 0.8] = Inr (Some ''b'')
   \<and> pick_winner [] [] = Inr None
   \<and> pick_winner [mk_result ''a'' SUCCESS '''', mk_result ''b'' ERROR '''']
        [mk_eval ''a'' False 0, mk_eval ''b'' False 0] = Inr None"
proof -
  let ?R = "[mk_result ''a'' SUCCESS '''', mk_result ''b'' SUCCESS '''', mk_result ''c'' SUCCESS '''']"
  let ?E = "[mk_eval ''a'' False 0.4, mk_eval ''b'' False 0.8, mk_eval ''c'' False 0.8]"
  let ?Rz = "[mk_result ''a'' SUCCESS '''', mk_result ''b'' ERROR '''']"
  let ?Ez = "[mk_eval ''a'' False 0, mk_eval ''b'' False 0]"
  have l: "length ?R = length ?E" by simp
  have p: "\<forall>e\<in>set ?E. 0 \<le> e_score e" by (simp add: mk_eval_def)
  have mx: "Max (e_score ` set ?E) = 0.8" by (simp add: mk_eval_def)
  have ne: "?E \<noteq> [] \<and> Max (e_score ` set ?E) \<noteq> 0"
    using mx by simp
  have "?E \<noteq> [] \<and> Max (e_score ` set ?E) \<noteq> 0 \<longrightarrow>
         (\<exists>i<length ?E.
            e_score (?E ! i) = Max (e_score ` set ?E)
          \<and> (\<forall>j<i. e_score (?E ! j) < e_score (?E ! i))
          \<and> pick_winner ?R ?E = Inr (Some (r_task_id (?R ! i))))"
    using pick_winner_spec [OF l p] by blast
  with ne obtain i where
    i0: "i < length ?E" and s0: "e_score (?E ! i) = Max (e_score ` set ?E)"
    and f: "\<forall>j<i. e_score (?E ! j) < e_score (?E ! i)"
    and w: "pick_winner ?R ?E = Inr (Some (r_task_id (?R ! i)))"
    by blast
  have i: "i < 3" using i0 by simp
  have s: "e_score (?E ! i) = 0.8" using s0 mx by simp
  have "i = 1"
  proof -
    from i have "i = 0 \<or> i = 1 \<or> i = 2" by auto
    then show ?thesis
    proof (elim disjE)
      assume "i = 0" with s show ?thesis by (simp add: mk_eval_def)
    next
      assume "i = 1" then show ?thesis .
    next
      assume "i = 2"
      with f have "(1::nat) < 2 \<longrightarrow> e_score (?E ! 1) < e_score (?E ! 2)" by blast
      then show ?thesis by (simp add: mk_eval_def)
    qed
  qed
  with w have a: "pick_winner ?R ?E = Inr (Some ''b'')" by (simp add: mk_result_def)
  have l0: "length ([]::agent_result list) = length ([]::eval_result list)" by simp
  have p0: "\<forall>e\<in>set ([]::eval_result list). 0 \<le> e_score e" by simp
  have b: "pick_winner [] [] = Inr None"
    using pick_winner_spec [OF l0 p0] by simp
  have l1: "length ?Rz = length ?Ez" by simp
  have p1: "\<forall>e\<in>set ?Ez. 0 \<le> e_score e" by (simp add: mk_eval_def)
  have "Max (e_score ` set ?Ez) = 0" by (simp add: mk_eval_def)
  then have c: "pick_winner ?Rz ?Ez = Inr None"
    using pick_winner_spec [OF l1 p1] by simp
  have p': "list_all (\<lambda>e. 0 \<le> e_score e) ?E" by (simp add: mk_eval_def)
  from l p' a b c show ?thesis by blast
qed

section \<open>Properties of the partial-score extraction\<close>








lemmas score_eval =
  parse_test_score_def match_count_def is_digit_def int_of_digits_def digit_value_def
  count_or_zero_def




section \<open>Properties of evaluate\<close>

text \<open>
  C4. A Result whose status is neither success nor failure (timeout, error, pending,
  running) is evaluated as not passed with score 0.0, for the same task, and no scoring
  command is started.
\<close>

theorem evaluate_skips_unfinished:
  assumes "r_status result \<notin> {SUCCESS, FAILURE}"
  shows "e_passed (fst (evaluate env result spec)) = False
       \<and> e_score (fst (evaluate env result spec)) = 0
       \<and> e_task_id (fst (evaluate env result spec)) = r_task_id result
       \<and> snd (evaluate env result spec) = []"
  using assms by (simp add: evaluate_def)

theorem evaluate_skips_unfinished_witness:
  "r_status (mk_result ''agent-1'' TIMEOUT ''partial'') \<notin> {SUCCESS, FAILURE}
   \<and> e_passed (fst (evaluate (const_env (Exited (Some 0) ''10 passed'' []))
         (mk_result ''agent-1'' TIMEOUT ''partial'') (mk_spec ''pytest'' ''exit-code'' None))) = False
   \<and> e_score (fst (evaluate (const_env (Exited (Some 0) ''10 passed'' []))
         (mk_result ''agent-1'' TIMEOUT ''partial'') (mk_spec ''pytest'' ''exit-code'' None))) = 0
   \<and> snd (evaluate (const_env (Exited (Some 0) ''10 passed'' []))
         (mk_result ''agent-1'' TIMEOUT ''partial'') (mk_spec ''pytest'' ''exit-code'' None)) = []"
proof -
  have h: "r_status (mk_result ''agent-1'' TIMEOUT ''partial'') \<notin> {SUCCESS, FAILURE}"
    by (simp add: mk_result_def)
  from evaluate_skips_unfinished [OF h] h show ?thesis by blast
qed







section \<open>Properties of build\_prompt and the populations\<close>

lemma join_Cons: "join sep (x # xs) = x @ concat (map (\<lambda>y. sep @ y) xs)"
  by (induction xs arbitrary: x) simp_all

lemma build_prompt_split:
  "build_prompt base hyps i =
     base
     @ map (\<lambda>s. if s = [] then [] else ''\<newline>\<newline>Approach: '' @ s) PROMPT_STRATEGIES ! (i mod 5)
     @ (if hyps = [] then []
        else concat (map (\<lambda>y. ''\<newline>'' @ y)
               ([''\<newline>--- Learnings from previous attempts ---'']
                @ map (\<lambda>h. ''- '' @ h_analysis h) hyps
                @ [''Use these insights to improve your approach.''])))"
proof -
  have len: "length PROMPT_STRATEGIES = 5"
    by (simp add: PROMPT_STRATEGIES_def)
  have lt: "i mod 5 < length PROMPT_STRATEGIES"
    by (simp add: len)
  have nl: "((@) ''\<newline>'') = ((#) CHR ''\<newline>'')"
    by (simp add: fun_eq_iff)
  show ?thesis
    unfolding nth_map [OF lt]
    by (simp add: build_prompt_def Let_def len join_Cons nl del: join.simps)
qed

lemma approach_distinct:
  "distinct (map (\<lambda>s. if s = [] then [] else ''\<newline>\<newline>Approach: '' @ s) PROMPT_STRATEGIES)"
  by (simp add: PROMPT_STRATEGIES_def)

lemma build_prompt_eq_iff:
  "build_prompt base hyps i = build_prompt base hyps j \<longleftrightarrow> i mod 5 = j mod 5"
proof
  assume eq: "build_prompt base hyps i = build_prompt base hyps j"
  let ?A = "map (\<lambda>s. if s = [] then [] else ''\<newline>\<newline>Approach: '' @ s) PROMPT_STRATEGIES"
  have len: "length ?A = 5"
    by (simp add: PROMPT_STRATEGIES_def)
  from eq have "?A ! (i mod 5) = ?A ! (j mod 5)"
    unfolding build_prompt_split by simp
  moreover have "i mod 5 < length ?A" "j mod 5 < length ?A"
    unfolding len by simp_all
  ultimately show "i mod 5 = j mod 5"
    using approach_distinct nth_eq_iff_index_eq by blast
next
  assume "i mod 5 = j mod 5"
  then show "build_prompt base hyps i = build_prompt base hyps j"
    by (simp add: build_prompt_def PROMPT_STRATEGIES_def)
qed

text \<open>
  C10, as the code has it. The prompt of the \<open>i\<close>-th task of a population is
  \<open>build_prompt\<close> of the base prompt, the hypotheses (none for the initial population)
  and \<open>i\<close>, a function of these three alone. Two variant indices have the same prompt
  exactly when they are equal modulo 5, the number of prompt strategies; so the prompts of
  the indices below \<open>N\<close> are pairwise distinct when \<open>N\<close> is at most 5.
\<close>

theorem prompt_variants:
  "(\<forall>i<N. t_prompt (create_initial_population ids k0 base step N ! i) = build_prompt base [] i)
 \<and> (\<forall>i<N. t_prompt (evolve ids k0 base step gen N hyps ! i) = build_prompt base hyps i)
 \<and> (\<forall>i j. build_prompt base hyps i = build_prompt base hyps j \<longleftrightarrow> i mod 5 = j mod 5)
 \<and> (N \<le> 5 \<longrightarrow> (\<forall>i<N. \<forall>j<N. i \<noteq> j \<longrightarrow> build_prompt base hyps i \<noteq> build_prompt base hyps j))"
proof (intro conjI allI impI)
  fix i assume "i < N"
  then show "t_prompt (create_initial_population ids k0 base step N ! i) = build_prompt base [] i"
    by (simp add: create_initial_population_def)
next
  fix i assume "i < N"
  then show "t_prompt (evolve ids k0 base step gen N hyps ! i) = build_prompt base hyps i"
    by (simp add: evolve_def)
next
  fix i j
  show "build_prompt base hyps i = build_prompt base hyps j \<longleftrightarrow> i mod 5 = j mod 5"
    by (rule build_prompt_eq_iff)
next
  fix i j assume "N \<le> 5" "i < N" "j < N" "i \<noteq> j"
  then have "i mod 5 \<noteq> j mod 5" by simp
  then show "build_prompt base hyps i \<noteq> build_prompt base hyps j"
    by (simp add: build_prompt_eq_iff)
qed

theorem prompt_variants_witness:
  "(3::nat) \<le> 5
   \<and> build_prompt ''Fix the bug'' [] 0 \<noteq> build_prompt ''Fix the bug'' [] 2
   \<and> t_prompt (create_initial_population counting_uuid_hex 0 ''Fix the bug'' 0 3 ! 2)
       = build_prompt ''Fix the bug'' [] 2
   \<and> t_prompt (create_initial_population counting_uuid_hex 0 ''Fix the bug'' 0 3 ! 2)
       = ''Fix the bug\<newline>\<newline>Approach: Focus on writing minimal, correct code. Prioritize passing tests over completeness.''"
proof -
  note pv = prompt_variants [of 3 counting_uuid_hex 0 "''Fix the bug''" 0 0 "[]"]
  have le: "(3::nat) \<le> 5" by simp
  from pv le have "\<forall>i<3. \<forall>j<3. i \<noteq> j \<longrightarrow>
      build_prompt ''Fix the bug'' [] i \<noteq> build_prompt ''Fix the bug'' [] j"
    by blast
  then have a: "build_prompt ''Fix the bug'' [] 0 \<noteq> build_prompt ''Fix the bug'' [] 2"
    by simp
  from pv have "\<forall>i<3. t_prompt (create_initial_population counting_uuid_hex 0 ''Fix the bug'' 0 3 ! i)
      = build_prompt ''Fix the bug'' [] i"
    by blast
  then have b: "t_prompt (create_initial_population counting_uuid_hex 0 ''Fix the bug'' 0 3 ! 2)
      = build_prompt ''Fix the bug'' [] 2"
    by simp
  have c: "build_prompt ''Fix the bug'' [] 2 =
      ''Fix the bug\<newline>\<newline>Approach: Focus on writing minimal, correct code. Prioritize passing tests over completeness.''"
    by (simp add: build_prompt_def PROMPT_STRATEGIES_def)
  from le a b c show ?thesis by simp
qed

text \<open>
  C10 as stated fails for a population of six: the variant indices 0 and 5 select the same
  strategy, so the first and the sixth task carry the same prompt.
\<close>

theorem prompt_variants_counterexample:
  "length (create_initial_population counting_uuid_hex 0 ''Fix the bug'' 0 6) = 6
   \<and> t_prompt (create_initial_population counting_uuid_hex 0 ''Fix the bug'' 0 6 ! 0) = ''Fix the bug''
   \<and> t_prompt (create_initial_population counting_uuid_hex 0 ''Fix the bug'' 0 6 ! 5) = ''Fix the bug''
   \<and> t_id (create_initial_population counting_uuid_hex 0 ''Fix the bug'' 0 6 ! 0) = ''agent-00000000''
   \<and> t_id (create_initial_population counting_uuid_hex 0 ''Fix the bug'' 0 6 ! 5) = ''agent-00000005''"
  by (simp add: create_initial_population_def build_prompt_def PROMPT_STRATEGIES_def
      counting_uuid_hex_def)

section \<open>Properties of the run state store\<close>

lemma map_of_write_file: "map_of (write_file st name f) name = Some f"
  by (induction st name f rule: write_file.induct) simp_all

lemma map_e_map:
  assumes "\<And>x. x \<in> set xs \<Longrightarrow> f (g x) = Inr (h x)"
  shows "map_e f (map g xs) = Inr (map h xs)"
  using assms by (induction xs) (simp_all add: bind_e_def)

lemma agent_status_roundtrip: "agent_status_of (JStr (agent_status_value s)) = Inr s"
  by (cases s) (simp_all add: agent_status_of_def)

lemma run_status_roundtrip: "run_status_of (JStr (run_status_value s)) = Inr s"
  by (cases s) (simp_all add: run_status_of_def)

lemmas reader_defs =
  bind_e_def subscript_def get_default_def iterate_def truthy_def
  as_str_def as_int_def as_float_def as_bool_def as_opt_str_def

lemma hypothesis_roundtrip: "deserialize_hypothesis (serialize_hypothesis h) = Inr h"
  by (simp add: deserialize_hypothesis_def serialize_hypothesis_def reader_defs)

lemma task_roundtrip:
  "deserialize_task
     (JObj [(''id'', JStr (t_id t)), (''generation'', JInt (t_generation t)),
            (''step_index'', JInt (t_step_index t)), (''prompt'', JStr (t_prompt t)),
            (''repo_snapshot_path'', JStr (t_repo_snapshot_path t))])
   = Inr (persisted_task t)"
  by (simp add: deserialize_task_def persisted_task_def reader_defs)

lemma result_roundtrip:
  "deserialize_result
     (JObj [(''task_id'', JStr (r_task_id r)), (''status'', JStr (agent_status_value (r_status r))),
            (''output'', JStr (take 1000 (r_output r))), (''patch_path'', JStr (r_patch_path r)),
            (''duration_seconds'', JFloat (r_duration_seconds r))])
   = Inr (persisted_result r)"
  by (simp add: deserialize_result_def persisted_result_def reader_defs agent_status_roundtrip)

lemma eval_roundtrip:
  "deserialize_eval
     (JObj [(''task_id'', JStr (e_task_id e)), (''passed'', JBool (e_passed e)),
            (''score'', JFloat (e_score e)), (''details'', JStr (take 1000 (e_details e)))])
   = Inr (persisted_eval e)"
  by (simp add: deserialize_eval_def persisted_eval_def reader_defs)

lemma plan_step_roundtrip:
  "deserialize_plan_step
     (JObj [(''index'', JInt (ps_index s)), (''description'', JStr (ps_description s)),
            (''prompt'', JStr (ps_prompt s))])
   = Inr s"
  by (simp add: deserialize_plan_step_def reader_defs)

lemma serialize_hypothesis_truthy: "truthy (serialize_hypothesis h)"
  by (simp add: serialize_hypothesis_def truthy_def)

lemma gen_roundtrip: "deserialize_gen (serialize_gen g) = Inr (persisted_gen g)"
proof -
  have t: "map_e deserialize_task
      (map (\<lambda>t. JObj [(''id'', JStr (t_id t)), (''generation'', JInt (t_generation t)),
            (''step_index'', JInt (t_step_index t)), (''prompt'', JStr (t_prompt t)),
            (''repo_snapshot_path'', JStr (t_repo_snapshot_path t))]) (g_tasks g))
      = Inr (map persisted_task (g_tasks g))"
    by (rule map_e_map) (rule task_roundtrip)
  have r: "map_e deserialize_result
      (map (\<lambda>r. JObj [(''task_id'', JStr (r_task_id r)), (''status'', JStr (agent_status_value (r_status r))),
            (''output'', JStr (take 1000 (r_output r))), (''patch_path'', JStr (r_patch_path r)),
            (''duration_seconds'', JFloat (r_duration_seconds r))]) (g_results g))
      = Inr (map persisted_result (g_results g))"
    by (rule map_e_map) (rule result_roundtrip)
  have e: "map_e deserialize_eval
      (map (\<lambda>e. JObj [(''task_id'', JStr (e_task_id e)), (''passed'', JBool (e_passed e)),
            (''score'', JFloat (e_score e)), (''details'', JStr (take 1000 (e_details e)))])
         (g_eval_results g))
      = Inr (map persisted_eval (g_eval_results g))"
    by (rule map_e_map) (rule eval_roundtrip)
  show ?thesis
    by (cases "g_winner_id g"; cases "g_hypothesis g")
       (simp_all add: deserialize_gen_def serialize_gen_def persisted_gen_def reader_defs t r e
          hypothesis_roundtrip serialize_hypothesis_truthy [unfolded truthy_def])
qed

lemma state_roundtrip: "deserialize_state (serialize_state s) = Inr (persisted_state s)"
proof -
  have p: "map_e deserialize_plan_step
      (map (\<lambda>s. JObj [(''index'', JInt (ps_index s)), (''description'', JStr (ps_description s)),
            (''prompt'', JStr (ps_prompt s))]) (rs_plan_steps s))
      = Inr (map (\<lambda>x. x) (rs_plan_steps s))"
    by (rule map_e_map) (rule plan_step_roundtrip)
  have g: "map_e deserialize_gen (map serialize_gen (rs_generations s))
      = Inr (map persisted_gen (rs_generations s))"
    by (rule map_e_map) (rule gen_roundtrip)
  have h: "map_e deserialize_hypothesis (map serialize_hypothesis (rs_hypotheses s))
      = Inr (map (\<lambda>x. x) (rs_hypotheses s))"
    by (rule map_e_map) (rule hypothesis_roundtrip)
  show ?thesis
    using p g h
    by (simp add: deserialize_state_def serialize_state_def persisted_state_def reader_defs
        run_status_roundtrip)
qed

lemma load_save: "load (save st s) (rs_id s) = Inr (Some (persisted_state s))"
  by (simp add: load_def save_def map_of_write_file read_json_def state_roundtrip bind_e_def)


lemma persisted_state_id:
  assumes "\<forall>g\<in>set (rs_generations s).
             (\<forall>t\<in>set (g_tasks g). t_parent_hypotheses t = [])
           \<and> (\<forall>r\<in>set (g_results g). length (r_output r) \<le> 1000 \<and> r_transcript_path r = None)
           \<and> (\<forall>e\<in>set (g_eval_results g). length (e_details e) \<le> 1000)"
  shows "persisted_state s = s"
proof -
  have "map persisted_gen (rs_generations s) = rs_generations s"
  proof (rule map_idI)
    fix g assume g: "g \<in> set (rs_generations s)"
    have "map persisted_task (g_tasks g) = g_tasks g"
      using assms g by (intro map_idI) (simp add: persisted_task_def)
    moreover have "map persisted_result (g_results g) = g_results g"
      using assms g by (intro map_idI) (simp add: persisted_result_def)
    moreover have "map persisted_eval (g_eval_results g) = g_eval_results g"
      using assms g by (intro map_idI) (simp add: persisted_eval_def)
    ultimately show "persisted_gen g = g"
      by (simp add: persisted_gen_def)
  qed
  then show ?thesis
    by (simp add: persisted_state_def)
qed

text \<open>
  C7, as the code has it. After \<open>save\<close>, \<open>load\<close> of the state's id returns the state with
  every \<open>Result.output\<close> and \<open>Evaluation.details\<close> cut to its first 1000 characters, every
  task's parent hypotheses emptied and every result's transcript path unset; all the rest,
  nested records, hypotheses and empty lists included, comes back equal. So a state with
  nothing to cut or drop comes back equal.
\<close>

theorem save_load_roundtrip:
  "load (save st s) (rs_id s) = Inr (Some (persisted_state s))
   \<and> rs_plan_steps (persisted_state s) = rs_plan_steps s
   \<and> rs_hypotheses (persisted_state s) = rs_hypotheses s
   \<and> length (rs_generations (persisted_state s)) = length (rs_generations s)
   \<and> (\<forall>i<length (rs_generations s).
        g_winner_id (rs_generations (persisted_state s) ! i) = g_winner_id (rs_generations s ! i)
      \<and> g_hypothesis (rs_generations (persisted_state s) ! i) = g_hypothesis (rs_generations s ! i)
      \<and> map r_output (g_results (rs_generations (persisted_state s) ! i))
          = map (take 1000 \<circ> r_output) (g_results (rs_generations s ! i))
      \<and> map e_details (g_eval_results (rs_generations (persisted_state s) ! i))
          = map (take 1000 \<circ> e_details) (g_eval_results (rs_generations s ! i)))
   \<and> ((\<forall>g\<in>set (rs_generations s).
             (\<forall>t\<in>set (g_tasks g). t_parent_hypotheses t = [])
           \<and> (\<forall>r\<in>set (g_results g). length (r_output r) \<le> 1000 \<and> r_transcript_path r = None)
           \<and> (\<forall>e\<in>set (g_eval_results g). length (e_details e) \<le> 1000))
        \<longrightarrow> load (save st s) (rs_id s) = Inr (Some s))"
proof (intro conjI allI impI)
  show "load (save st s) (rs_id s) = Inr (Some (persisted_state s))"
    by (rule load_save)
next
  show "rs_plan_steps (persisted_state s) = rs_plan_steps s"
    by (simp add: persisted_state_def)
next
  show "rs_hypotheses (persisted_state s) = rs_hypotheses s"
    by (simp add: persisted_state_def)
next
  show "length (rs_generations (persisted_state s)) = length (rs_generations s)"
    by (simp add: persisted_state_def)
next
  fix i assume "i < length (rs_generations s)"
  then show "g_winner_id (rs_generations (persisted_state s) ! i) = g_winner_id (rs_generations s ! i)"
    and "g_hypothesis (rs_generations (persisted_state s) ! i) = g_hypothesis (rs_generations s ! i)"
    and "map r_output (g_results (rs_generations (persisted_state s) ! i))
          = map (take 1000 \<circ> r_output) (g_results (rs_generations s ! i))"
    and "map e_details (g_eval_results (rs_generations (persisted_state s) ! i))
          = map (take 1000 \<circ> e_details) (g_eval_results (rs_generations s ! i))"
    by (simp_all add: persisted_state_def persisted_gen_def persisted_result_def
        persisted_eval_def comp_def)
next
  assume "\<forall>g\<in>set (rs_generations s).
             (\<forall>t\<in>set (g_tasks g). t_parent_hypotheses t = [])
           \<and> (\<forall>r\<in>set (g_results g). length (r_output r) \<le> 1000 \<and> r_transcript_path r = None)
           \<and> (\<forall>e\<in>set (g_eval_results g). length (e_details e) \<le> 1000)"
  then have "persisted_state s = s"
    by (rule persisted_state_id)
  then show "load (save st s) (rs_id s) = Inr (Some s)"
    using load_save [of st s] by simp
qed

theorem save_load_roundtrip_witness:
  "load (save [] full_state) ''full-run'' = Inr (Some full_state)
   \<and> load (save [(''full-run'', BrokenText)] full_state) ''full-run'' = Inr (Some full_state)"
proof -
  have ok: "\<forall>g\<in>set (rs_generations full_state).
             (\<forall>t\<in>set (g_tasks g). t_parent_hypotheses t = [])
           \<and> (\<forall>r\<in>set (g_results g). length (r_output r) \<le> 1000 \<and> r_transcript_path r = None)
           \<and> (\<forall>e\<in>set (g_eval_results g). length (e_details e) \<le> 1000)"
    by (simp add: full_state_def)
  have id: "rs_id full_state = ''full-run''"
    by (simp add: full_state_def)
  have "(\<forall>g\<in>set (rs_generations full_state).
             (\<forall>t\<in>set (g_tasks g). t_parent_hypotheses t = [])
           \<and> (\<forall>r\<in>set (g_results g). length (r_output r) \<le> 1000 \<and> r_transcript_path r = None)
           \<and> (\<forall>e\<in>set (g_eval_results g). length (e_details e) \<le> 1000))
        \<longrightarrow> load (save [] full_state) (rs_id full_state) = Inr (Some full_state)"
    using save_load_roundtrip [of "[]" full_state] by blast
  with ok have a: "load (save [] full_state) ''full-run'' = Inr (Some full_state)"
    unfolding id by blast
  have "(\<forall>g\<in>set (rs_generations full_state).
             (\<forall>t\<in>set (g_tasks g). t_parent_hypotheses t = [])
           \<and> (\<forall>r\<in>set (g_results g). length (r_output r) \<le> 1000 \<and> r_transcript_path r = None)
           \<and> (\<forall>e\<in>set (g_eval_results g). length (e_details e) \<le> 1000))
        \<longrightarrow> load (save [(''full-run'', BrokenText)] full_state) (rs_id full_state)
            = Inr (Some full_state)"
    using save_load_roundtrip [of "[(''full-run'', BrokenText)]" full_state] by blast
  with ok have b: "load (save [(''full-run'', BrokenText)] full_state) ''full-run''
      = Inr (Some full_state)"
    unfolding id by blast
  from a b show ?thesis by simp
qed

text \<open>
  C7 as stated fails on a state that has nothing longer than 1000 characters: the task of
  a later generation loses its parent hypotheses, and its result the transcript path.
\<close>

theorem save_load_roundtrip_counterexample:
  "load (save [] evolved_state) (rs_id evolved_state) \<noteq> Inr (Some evolved_state)
   \<and> list_all (\<lambda>g. list_all (\<lambda>r. length (r_output r) \<le> 1000) (g_results g)
                \<and> list_all (\<lambda>e. length (e_details e) \<le> 1000) (g_eval_results g))
        (rs_generations evolved_state)
   \<and> map (\<lambda>g. map t_parent_hypotheses (g_tasks g)) (rs_generations evolved_state)
        = [[[good_hypothesis]]]
   \<and> map (\<lambda>g. map r_transcript_path (g_results g)) (rs_generations evolved_state)
        = [[Some ''/tmp/raw.jsonl'']]
   \<and> (case load (save [] evolved_state) (rs_id evolved_state) of
         Inr (Some s) \<Rightarrow>
           map (\<lambda>g. map t_parent_hypotheses (g_tasks g)) (rs_generations s) = [[[]]]
         \<and> map (\<lambda>g. map r_transcript_path (g_results g)) (rs_generations s) = [[None]]
       | _ \<Rightarrow> False)"
proof -
  have l: "load (save [] evolved_state) (rs_id evolved_state)
      = Inr (Some (persisted_state evolved_state))"
    by (rule load_save)
  show ?thesis
    unfolding l
    by (simp add: persisted_state_def persisted_gen_def persisted_task_def
        persisted_result_def persisted_eval_def evolved_state_def)
qed

lemma list_runs_loop_skips:
  assumes "\<forall>f\<in>set fs. bind_e (read_json f) deserialize_state = Inl JSONDecodeError
                     \<or> (\<exists>k. bind_e (read_json f) deserialize_state = Inl (KeyError k))
                     \<or> (\<exists>s. bind_e (read_json f) deserialize_state = Inr s)"
  shows "list_runs_loop fs runs =
           Inr (runs @ concat (map (\<lambda>f. case bind_e (read_json f) deserialize_state of
                                       Inr s \<Rightarrow> [s] | Inl e \<Rightarrow> []) fs))"
  using assms
proof (induction fs arbitrary: runs)
  case Nil
  show ?case by simp
next
  case (Cons f fs)
  from Cons.prems have rest: "\<forall>f\<in>set fs. bind_e (read_json f) deserialize_state = Inl JSONDecodeError
                     \<or> (\<exists>k. bind_e (read_json f) deserialize_state = Inl (KeyError k))
                     \<or> (\<exists>s. bind_e (read_json f) deserialize_state = Inr s)"
    by simp
  from Cons.prems consider
      "bind_e (read_json f) deserialize_state = Inl JSONDecodeError"
    | k where "bind_e (read_json f) deserialize_state = Inl (KeyError k)"
    | s where "bind_e (read_json f) deserialize_state = Inr s"
    by auto
  then show ?case
    by cases (simp_all add: Cons.IH [OF rest])
qed

text \<open>
  C8 at a store directory with one valid run document and one corrupt one, whose status
  is not a status: \<open>list_runs\<close> does not return the valid run, it raises \<open>ValueError\<close>. So
  it does for a file that is not text, and \<open>TypeError\<close> for a document that is a list. A
  file the decoder rejects is skipped, and so is a document with a key missing.
\<close>

theorem list_runs_corrupt_raises:
  "list_runs [(''run-0'', JsonText (serialize_state (empty_run ''run-0''))),
              (''run-1'', JsonText bad_status_document)] = Inl ValueError
   \<and> list_runs [(''run-0'', JsonText (serialize_state (empty_run ''run-0''))),
                (''run-1'', BadBytes)] = Inl ValueError
   \<and> list_runs [(''run-0'', JsonText (serialize_state (empty_run ''run-0''))),
                (''run-1'', JsonText (JArr [JInt 1, JInt 2]))] = Inl TypeError
   \<and> list_runs [(''run-1'', BrokenText),
                (''run-0'', JsonText (serialize_state (empty_run ''run-0''))),
                (''run-2'', JsonText (JObj [(''id'', JStr ''run-2'')]))]
       = Inr [empty_run ''run-0'']"
proof -
  have good: "\<And>rid. bind_e (read_json (JsonText (serialize_state (empty_run rid)))) deserialize_state
      = Inr (empty_run rid)"
    by (simp add: read_json_def bind_e_def state_roundtrip persisted_state_def empty_run_def)
  have status: "bind_e (read_json (JsonText bad_status_document)) deserialize_state = Inl ValueError"
    by (simp add: read_json_def bad_status_document_def deserialize_state_def reader_defs
        run_status_of_def)
  have bytes: "bind_e (read_json BadBytes) deserialize_state = Inl ValueError"
    by (simp add: read_json_def bind_e_def)
  have arr: "bind_e (read_json (JsonText (JArr [JInt 1, JInt 2]))) deserialize_state = Inl TypeError"
    by (simp add: read_json_def deserialize_state_def reader_defs)
  have broken: "bind_e (read_json BrokenText) deserialize_state = Inl JSONDecodeError"
    by (simp add: read_json_def bind_e_def)
  have nokey: "bind_e (read_json (JsonText (JObj [(''id'', JStr ''run-2'')]))) deserialize_state
      = Inl (KeyError ''status'')"
    by (simp add: read_json_def deserialize_state_def reader_defs)
  show ?thesis
    by (simp add: list_runs_def good status bytes arr broken nokey)
qed

section \<open>Properties of the generation loop\<close>

lemma run_eval_length: "length (fst (run_eval ew results spec)) = length results"
  by (simp add: run_eval_def)

lemma pick_winner_total:
  assumes "length evals = length results"
  shows "\<exists>v. pick_winner results evals = Inr v"
proof (cases evals)
  case Nil
  then show ?thesis by (simp add: pick_winner_def)
next
  case (Cons e es)
  with assms obtain r rs where "results = r # rs" by (cases results) auto
  with Cons show ?thesis by (simp add: pick_winner_def py_max_def)
qed

lemma state_append_record [simp]:
  "state (append_record record w) = (state w)\<lparr>rs_generations := rs_generations (state w) @ [record]\<rparr>"
  "dispatched (append_record record w) = dispatched w"
  "cli_calls (append_record record w) = cli_calls w"
  "uuids_drawn (append_record record w) = uuids_drawn w"
  "commands (append_record record w) = commands w"
  "applied (append_record record w) = applied w"
  "files (append_record record w) =
     save (files w) ((state w)\<lparr>rs_generations := rs_generations (state w) @ [record]\<rparr>)"
  by (simp_all add: append_record_def save_state_def)

lemma save_state_simps [simp]:
  "state (save_state w) = state w"
  "dispatched (save_state w) = dispatched w"
  "cli_calls (save_state w) = cli_calls w"
  "uuids_drawn (save_state w) = uuids_drawn w"
  "commands (save_state w) = commands w"
  "applied (save_state w) = applied w"
  "cancelled (save_state w) = cancelled w"
  "files (save_state w) = save (files w) (state w)"
  by (simp_all add: save_state_def)

lemma make_population_cong:
  "uuids_drawn w' = uuids_drawn w \<Longrightarrow>
   make_population cfg step base gen hyps w' = make_population cfg step base gen hyps w"
  by (simp add: make_population_def)


text \<open>One pass whose best evaluation did not pass (or is missing), with generations left.\<close>

lemma evolve_generation_more:
  assumes ex: "execute_generation cfg (length (dispatched w)) (make_population cfg step base gen hyps w)
                 = Inr results"
    and nb: "\<forall>b. best_eval (fst (run_eval (eval_world cfg) results (eval cfg))) = Some b \<longrightarrow> \<not> e_passed b"
    and left: "Suc gen < max_generations cfg"
    and an: "analyze (claude_cli cfg) (fmt_score cfg) (cli_calls w) base results
               (fst (run_eval (eval_world cfg) results (eval cfg))) (int gen) = Inr h"
  shows "\<exists>w' v. evolve_generation cfg step base gen hyps w = (Inr (Next (hyps @ [h]) v), w')
    \<and> pick_winner results (fst (run_eval (eval_world cfg) results (eval cfg))) = Inr v
    \<and> rs_generations (state w') = rs_generations (state w) @
         [\<lparr>g_generation = int gen, g_step_index = step,
           g_tasks = make_population cfg step base gen hyps w, g_results = results,
           g_eval_results = fst (run_eval (eval_world cfg) results (eval cfg)),
           g_winner_id = v, g_hypothesis = Some h\<rparr>]
    \<and> rs_hypotheses (state w') = rs_hypotheses (state w) @ [h]
    \<and> dispatched w' = dispatched w @ [make_population cfg step base gen hyps w]
    \<and> cli_calls w' = cli_calls w + 1"
proof -
  let ?w1 = "save_state (w\<lparr>state := (state w)\<lparr>rs_current_generation := int gen\<rparr>\<rparr>)"
  have pop: "make_population cfg step base gen hyps ?w1 = make_population cfg step base gen hyps w"
    by (rule make_population_cong) simp
  obtain v where pw: "pick_winner results (fst (run_eval (eval_world cfg) results (eval cfg))) = Inr v"
    using pick_winner_total [OF run_eval_length] by blast
  have lt: "int gen < int (max_generations cfg) - 1"
    using left by simp
  show ?thesis
  proof (cases "best_eval (fst (run_eval (eval_world cfg) results (eval cfg)))")
    case None
    then show ?thesis
      using ex pw lt an
      by (simp add: evolve_generation_def analyze_and_record_def Let_def pop)
  next
    case (Some b)
    with nb have "\<not> e_passed b" by simp
    with Some show ?thesis
      using ex pw lt an
      by (simp add: evolve_generation_def analyze_and_record_def Let_def pop)
  qed
qed

text \<open>The last pass, when its best evaluation did not pass either: no analysis.\<close>

lemma evolve_generation_last:
  assumes ex: "execute_generation cfg (length (dispatched w)) (make_population cfg step base gen hyps w)
                 = Inr results"
    and nb: "\<forall>b. best_eval (fst (run_eval (eval_world cfg) results (eval cfg))) = Some b \<longrightarrow> \<not> e_passed b"
    and last: "Suc gen = max_generations cfg"
  shows "\<exists>w' v. evolve_generation cfg step base gen hyps w = (Inr (Next hyps v), w')
    \<and> pick_winner results (fst (run_eval (eval_world cfg) results (eval cfg))) = Inr v
    \<and> rs_generations (state w') = rs_generations (state w) @
         [\<lparr>g_generation = int gen, g_step_index = step,
           g_tasks = make_population cfg step base gen hyps w, g_results = results,
           g_eval_results = fst (run_eval (eval_world cfg) results (eval cfg)),
           g_winner_id = v, g_hypothesis = None\<rparr>]
    \<and> rs_hypotheses (state w') = rs_hypotheses (state w)
    \<and> dispatched w' = dispatched w @ [make_population cfg step base gen hyps w]
    \<and> cli_calls w' = cli_calls w"
proof -
  let ?w1 = "save_state (w\<lparr>state := (state w)\<lparr>rs_current_generation := int gen\<rparr>\<rparr>)"
  have pop: "make_population cfg step base gen hyps ?w1 = make_population cfg step base gen hyps w"
    by (rule make_population_cong) simp
  obtain v where pw: "pick_winner results (fst (run_eval (eval_world cfg) results (eval cfg))) = Inr v"
    using pick_winner_total [OF run_eval_length] by blast
  have lt: "\<not> int gen < int (max_generations cfg) - 1"
    using last by simp
  show ?thesis
  proof (cases "best_eval (fst (run_eval (eval_world cfg) results (eval cfg)))")
    case None
    then show ?thesis
      using ex pw lt
      by (simp add: evolve_generation_def analyze_and_record_def Let_def pop)
  next
    case (Some b)
    with nb have "\<not> e_passed b" by simp
    with Some show ?thesis
      using ex pw lt
      by (simp add: evolve_generation_def analyze_and_record_def Let_def pop)
  qed
qed








text \<open>
  The loop from generation \<open>a\<close> on, in a world where the populations dispatched never
  have a passing best evaluation and the analyses asked for succeed: it uses up the
  generations.
\<close>

lemma evolve_gens_exhaust:
  assumes H1: "\<forall>k tasks. d0 \<le> k \<and> k < d0 + max_generations cfg \<longrightarrow>
        (\<exists>results. execute_generation cfg k tasks = Inr results
          \<and> (\<forall>b. best_eval (fst (run_eval (eval_world cfg) results (eval cfg))) = Some b
                \<longrightarrow> \<not> e_passed b))"
    and H2: "\<forall>k p rs es g. c0 \<le> k \<and> k + 1 < c0 + max_generations cfg \<longrightarrow>
        (\<exists>h. analyze (claude_cli cfg) (fmt_score cfg) k p rs es g = Inr h)"
  shows "n + a = max_generations cfg \<Longrightarrow> length (dispatched w) = d0 + a \<Longrightarrow> cli_calls w = c0 + a \<Longrightarrow>
     \<exists>hs v w' recs. evolve_gens cfg step base [a..<max_generations cfg] hyps winner w
           = (Inr (Next hs v), w')
       \<and> rs_generations (state w') = rs_generations (state w) @ recs
       \<and> length recs = n
       \<and> (\<forall>i<n. g_generation (recs ! i) = int (a + i)
                \<and> g_eval_results (recs ! i)
                    = fst (run_eval (eval_world cfg) (g_results (recs ! i)) (eval cfg))
                \<and> (g_hypothesis (recs ! i) = None \<longleftrightarrow> a + i + 1 = max_generations cfg))
       \<and> (0 < n \<longrightarrow> v = g_winner_id (last recs)
                  \<and> pick_winner (g_results (last recs)) (g_eval_results (last recs)) = Inr v)
       \<and> length (rs_hypotheses (state w')) = length (rs_hypotheses (state w)) + (n - 1)
       \<and> length (dispatched w') = length (dispatched w) + n
       \<and> cli_calls w' = cli_calls w + (n - 1)"
proof (induction n arbitrary: a hyps winner w)
  case 0
  then have e: "[a..<max_generations cfg] = []" by simp
  show ?case
    unfolding e by simp
next
  case (Suc n)
  let ?G = "max_generations cfg"
  let ?tasks = "make_population cfg step base a hyps w"
  from Suc.prems have a: "a < ?G" by simp
  then have upt: "[a..<?G] = a # [Suc a..<?G]"
    by (simp add: upt_conv_Cons)
  have "d0 \<le> length (dispatched w) \<and> length (dispatched w) < d0 + ?G"
    using Suc.prems a by simp
  with H1 obtain results where
    ex: "execute_generation cfg (length (dispatched w)) ?tasks = Inr results"
    and nb: "\<forall>b. best_eval (fst (run_eval (eval_world cfg) results (eval cfg))) = Some b
                \<longrightarrow> \<not> e_passed b"
    by blast
  let ?evals = "fst (run_eval (eval_world cfg) results (eval cfg))"
  show ?case
  proof (cases "Suc a = ?G")
    case True
    with Suc.prems have n0: "n = 0" by simp
    from evolve_generation_last [OF ex nb True] obtain w' v where
      gen: "evolve_generation cfg step base a hyps w = (Inr (Next hyps v), w')"
      and pw: "pick_winner results ?evals = Inr v"
      and gs: "rs_generations (state w') = rs_generations (state w) @
         [\<lparr>g_generation = int a, g_step_index = step, g_tasks = ?tasks, g_results = results,
           g_eval_results = ?evals, g_winner_id = v, g_hypothesis = None\<rparr>]"
      and hs: "rs_hypotheses (state w') = rs_hypotheses (state w)"
      and ds: "dispatched w' = dispatched w @ [?tasks]"
      and cs: "cli_calls w' = cli_calls w"
      by blast
    have run: "evolve_gens cfg step base [a..<?G] hyps winner w = (Inr (Next hyps v), w')"
      unfolding upt using True by (simp add: gen)
    let ?last = "\<lparr>g_generation = int a, g_step_index = step, g_tasks = ?tasks, g_results = results,
           g_eval_results = ?evals, g_winner_id = v, g_hypothesis = None\<rparr>"
    have l1: "rs_generations (state w') = rs_generations (state w) @ [?last]"
      by (rule gs)
    have l2: "length [?last] = Suc n"
      using n0 by simp
    have l3: "\<forall>i<Suc n. g_generation ([?last] ! i) = int (a + i)
                \<and> g_eval_results ([?last] ! i)
                    = fst (run_eval (eval_world cfg) (g_results ([?last] ! i)) (eval cfg))
                \<and> (g_hypothesis ([?last] ! i) = None \<longleftrightarrow> a + i + 1 = ?G)"
      using n0 True by simp
    have l4: "0 < Suc n \<longrightarrow> v = g_winner_id (last [?last])
        \<and> pick_winner (g_results (last [?last])) (g_eval_results (last [?last])) = Inr v"
      using pw by simp
    have l5: "length (rs_hypotheses (state w')) = length (rs_hypotheses (state w)) + (Suc n - 1)"
      using hs n0 by simp
    have l6: "length (dispatched w') = length (dispatched w) + Suc n"
      using ds n0 by simp
    have l7: "cli_calls w' = cli_calls w + (Suc n - 1)"
      using cs n0 by simp
    show ?thesis
      by (intro exI conjI; (rule run l1 l2 l3 l4 l5 l6 l7))
  next
    case False
    with a have more: "Suc a < ?G" by simp
    have "c0 \<le> cli_calls w \<and> cli_calls w + 1 < c0 + ?G"
      using Suc.prems more by simp
    with H2 obtain h where
      an: "analyze (claude_cli cfg) (fmt_score cfg) (cli_calls w) base results ?evals (int a) = Inr h"
      by blast
    from evolve_generation_more [OF ex nb more an] obtain w1 v1 where
      gen: "evolve_generation cfg step base a hyps w = (Inr (Next (hyps @ [h]) v1), w1)"
      and gs: "rs_generations (state w1) = rs_generations (state w) @
         [\<lparr>g_generation = int a, g_step_index = step, g_tasks = ?tasks, g_results = results,
           g_eval_results = ?evals, g_winner_id = v1, g_hypothesis = Some h\<rparr>]"
      and hs: "rs_hypotheses (state w1) = rs_hypotheses (state w) @ [h]"
      and ds: "dispatched w1 = dispatched w @ [?tasks]"
      and cs: "cli_calls w1 = cli_calls w + 1"
      by blast
    let ?rec = "\<lparr>g_generation = int a, g_step_index = step, g_tasks = ?tasks, g_results = results,
           g_eval_results = ?evals, g_winner_id = v1, g_hypothesis = Some h\<rparr>"
    have p1: "n + Suc a = ?G" using Suc.prems by simp
    have p2: "length (dispatched w1) = d0 + Suc a" using Suc.prems ds by simp
    have p3: "cli_calls w1 = c0 + Suc a" using Suc.prems cs by simp
    have npos: "0 < n" using p1 more by simp
    from Suc.IH [OF p1 p2 p3, of "hyps @ [h]" v1] obtain hs' v w' recs where
      run': "evolve_gens cfg step base [Suc a..<?G] (hyps @ [h]) v1 w1 = (Inr (Next hs' v), w')"
      and gs': "rs_generations (state w') = rs_generations (state w1) @ recs"
      and len': "length recs = n"
      and each': "\<forall>i<n. g_generation (recs ! i) = int (Suc a + i)
                \<and> g_eval_results (recs ! i)
                    = fst (run_eval (eval_world cfg) (g_results (recs ! i)) (eval cfg))
                \<and> (g_hypothesis (recs ! i) = None \<longleftrightarrow> Suc a + i + 1 = ?G)"
      and last': "0 < n \<longrightarrow> v = g_winner_id (last recs)
                  \<and> pick_winner (g_results (last recs)) (g_eval_results (last recs)) = Inr v"
      and hs': "length (rs_hypotheses (state w')) = length (rs_hypotheses (state w1)) + (n - 1)"
      and ds': "length (dispatched w') = length (dispatched w1) + n"
      and cs': "cli_calls w' = cli_calls w1 + (n - 1)"
      by blast
    have run: "evolve_gens cfg step base [a..<?G] hyps winner w = (Inr (Next hs' v), w')"
      unfolding upt by (simp add: gen run')
    have g1: "rs_generations (state w') = rs_generations (state w) @ (?rec # recs)"
      using gs gs' by simp
    have g2: "length (?rec # recs) = Suc n"
      using len' by simp
    have g3: "\<forall>i<Suc n. g_generation ((?rec # recs) ! i) = int (a + i)
                \<and> g_eval_results ((?rec # recs) ! i)
                    = fst (run_eval (eval_world cfg) (g_results ((?rec # recs) ! i)) (eval cfg))
                \<and> (g_hypothesis ((?rec # recs) ! i) = None \<longleftrightarrow> a + i + 1 = ?G)"
    proof (intro allI impI)
      fix i assume i: "i < Suc n"
      show "g_generation ((?rec # recs) ! i) = int (a + i)
                \<and> g_eval_results ((?rec # recs) ! i)
                    = fst (run_eval (eval_world cfg) (g_results ((?rec # recs) ! i)) (eval cfg))
                \<and> (g_hypothesis ((?rec # recs) ! i) = None \<longleftrightarrow> a + i + 1 = ?G)"
      proof (cases i)
        case 0
        then show ?thesis using more by simp
      next
        case (Suc j)
        with i have "j < n" by simp
        with each' have "g_generation (recs ! j) = int (Suc a + j)
                \<and> g_eval_results (recs ! j)
                    = fst (run_eval (eval_world cfg) (g_results (recs ! j)) (eval cfg))
                \<and> (g_hypothesis (recs ! j) = None \<longleftrightarrow> Suc a + j + 1 = ?G)"
          by blast
        then show ?thesis using Suc by simp
      qed
    qed
    have recs_ne: "recs \<noteq> []"
      using len' npos by auto
    have g4: "0 < Suc n \<longrightarrow> v = g_winner_id (last (?rec # recs))
        \<and> pick_winner (g_results (last (?rec # recs))) (g_eval_results (last (?rec # recs))) = Inr v"
      using last' npos recs_ne by simp
    have g5: "length (rs_hypotheses (state w')) = length (rs_hypotheses (state w)) + (Suc n - 1)"
      using hs hs' npos by simp
    have g6: "length (dispatched w') = length (dispatched w) + Suc n"
      using ds ds' by simp
    have g7: "cli_calls w' = cli_calls w + (Suc n - 1)"
      using cs cs' npos by simp
    show ?thesis
      by (intro exI conjI; (rule run g1 g2 g3 g4 g5 g6 g7))
  qed
qed

text \<open>
  C3. With \<open>G \<ge> 1\<close> generations at most, in a world where no population dispatched by
  this step has a passing best evaluation (and neither the jobs nor the analyses of this
  step raise), \<open>_evolve_step\<close> runs all \<open>G\<close> generations: it appends exactly \<open>G\<close> records,
  for the generations 0 to \<open>G - 1\<close> in order, each with the evaluations of its results; it
  produces exactly \<open>G - 1\<close> hypotheses, one in every record but the last; and it returns
  the winner id of the last record, which is what \<open>pick_winner\<close> picked for the last
  generation and may be \<open>None\<close>.
\<close>

theorem evolve_step_exhausts:
  assumes G: "1 \<le> max_generations cfg"
    and H1: "\<forall>k tasks. length (dispatched w) \<le> k \<and> k < length (dispatched w) + max_generations cfg \<longrightarrow>
        (\<exists>results. execute_generation cfg k tasks = Inr results
          \<and> (\<forall>b. best_eval (fst (run_eval (eval_world cfg) results (eval cfg))) = Some b
                \<longrightarrow> \<not> e_passed b))"
    and H2: "\<forall>k p rs es g. cli_calls w \<le> k \<and> k + 1 < cli_calls w + max_generations cfg \<longrightarrow>
        (\<exists>h. analyze (claude_cli cfg) (fmt_score cfg) k p rs es g = Inr h)"
  shows "\<exists>v w' recs. evolve_step cfg step base w = (Inr v, w')
       \<and> rs_generations (state w') = rs_generations (state w) @ recs
       \<and> length recs = max_generations cfg
       \<and> (\<forall>i<max_generations cfg. g_generation (recs ! i) = int i
                \<and> g_eval_results (recs ! i)
                    = fst (run_eval (eval_world cfg) (g_results (recs ! i)) (eval cfg))
                \<and> (g_hypothesis (recs ! i) = None \<longleftrightarrow> i + 1 = max_generations cfg))
       \<and> length (rs_hypotheses (state w')) = length (rs_hypotheses (state w)) + (max_generations cfg - 1)
       \<and> v = g_winner_id (last recs)
       \<and> pick_winner (g_results (last recs)) (g_eval_results (last recs)) = Inr v
       \<and> length (dispatched w') = length (dispatched w) + max_generations cfg
       \<and> cli_calls w' = cli_calls w + (max_generations cfg - 1)"
proof -
  let ?G = "max_generations cfg"
  have p1: "?G + 0 = ?G" by simp
  have p2: "length (dispatched w) = length (dispatched w) + 0" by simp
  have p3: "cli_calls w = cli_calls w + 0" by simp
  note loop = evolve_gens_exhaust [OF H1 H2 p1 p2 p3, of step base "[]" None]
  have z: "\<And>i. 0 + i = (i::nat)" by simp
  from loop [unfolded z] obtain hs v w' recs where
    run: "evolve_gens cfg step base [0..<?G] [] None w = (Inr (Next hs v), w')"
    and r1: "rs_generations (state w') = rs_generations (state w) @ recs"
    and r2: "length recs = ?G"
    and r3: "\<forall>i<?G. g_generation (recs ! i) = int i
                \<and> g_eval_results (recs ! i)
                    = fst (run_eval (eval_world cfg) (g_results (recs ! i)) (eval cfg))
                \<and> (g_hypothesis (recs ! i) = None \<longleftrightarrow> i + 1 = ?G)"
    and r4: "0 < ?G \<longrightarrow> v = g_winner_id (last recs)
                  \<and> pick_winner (g_results (last recs)) (g_eval_results (last recs)) = Inr v"
    and r5: "length (rs_hypotheses (state w')) = length (rs_hypotheses (state w)) + (?G - 1)"
    and r6: "length (dispatched w') = length (dispatched w) + ?G"
    and r7: "cli_calls w' = cli_calls w + (?G - 1)"
    by (elim exE conjE) (rule that; assumption)
  have step: "evolve_step cfg step base w = (Inr v, w')"
    using G run by (simp add: evolve_step_def)
  have pos: "0 < ?G"
    using G by simp
  have r4a: "v = g_winner_id (last recs)"
    and r4b: "pick_winner (g_results (last recs)) (g_eval_results (last recs)) = Inr v"
    using r4 pos by blast+
  show ?thesis
    by (intro exI conjI; (rule step r1 r2 r3 r4a r4b r5 r6 r7))
qed

lemmas json_eval =
  json_loads_def skip_ws_def is_json_ws_def scan_number_def is_digit_def int_of_digits_def
  digit_value_def hex_value_def unescape_def eval_nat_numeral

lemma json_loads_analysis_reply:
  "json_loads analysis_reply =
     Inr (JObj [(''analysis'', JStr ''Tests fail''), (''prompt_delta'', JStr ''Read the tests'')])"
  by (simp add: analysis_reply_def json_eval)

lemma strip_fence_analysis_reply: "strip_fence analysis_reply = analysis_reply"
  by (simp add: strip_fence_def strip_def rstrip_def is_py_space_def analysis_reply_def)

lemma analyze_scripted:
  "analyze (scripted_cli [analysis_reply]) fmt 0 p rs es g =
     Inr \<lparr>h_generation = g,
          h_winner_id = (case sort_by_score (zip rs es) of [] \<Rightarrow> [] | x # xs \<Rightarrow> r_task_id (fst x)),
          h_analysis = ''Tests fail'', h_prompt_delta = ''Read the tests''\<rparr>"
  by (simp add: analyze_def claude_query_def scripted_cli_def json_loads_analysis_reply
      strip_fence_analysis_reply reader_defs Let_def)

lemma max_by_key_mem: "max_by_key key x xs \<in> set (x # xs)"
  by (induction xs arbitrary: x) auto

lemma best_eval_mem: "best_eval es = Some b \<Longrightarrow> b \<in> set es"
  using max_by_key_mem [of e_score] by (cases es) (auto simp: best_eval_def)


lemma failing_world_evaluate:
  "e_passed (fst (evaluate (const_env (Exited (Some 1) ''boom'' [])) (mk_result tid SUCCESS out)
     (mk_spec ''pytest'' ''exit-code'' None))) = False"
  by (simp add: evaluate_def const_env_def mk_result_def mk_spec_def prepare_eval_dir_def Let_def)

lemma failing_world_jobs:
  "\<exists>results.
     execute_generation (scenario cli (const_env (Exited (Some 1) ''boom'' []))) k tasks = Inr results
   \<and> (\<forall>b. best_eval (fst (run_eval (eval_world (scenario cli (const_env (Exited (Some 1) ''boom'' []))))
                results (eval (scenario cli (const_env (Exited (Some 1) ''boom'' []))))))
            = Some b \<longrightarrow> \<not> e_passed b)"
proof -
  let ?ew = "const_env (Exited (Some 1) ''boom'' [])"
  let ?results = "map (\<lambda>t. mk_result (t_id t) SUCCESS ''done'') tasks"
  have ex: "execute_generation (scenario cli ?ew) k tasks = Inr ?results"
    by (simp add: scenario_def)
  have cfg: "eval_world (scenario cli ?ew) = ?ew" "eval (scenario cli ?ew) = mk_spec ''pytest'' ''exit-code'' None"
    by (simp_all add: scenario_def)
  have "\<forall>e\<in>set (fst (run_eval ?ew ?results (mk_spec ''pytest'' ''exit-code'' None))). \<not> e_passed e"
    by (simp add: run_eval_def failing_world_evaluate)
  then have "\<forall>b. best_eval (fst (run_eval ?ew ?results (mk_spec ''pytest'' ''exit-code'' None))) = Some b
      \<longrightarrow> \<not> e_passed b"
    using best_eval_mem by blast
  with ex show ?thesis
    unfolding cfg by blast
qed

lemma failing_world_score:
  "e_score (fst (evaluate (const_env (Exited (Some 1) ''boom'' [])) r
     (mk_spec ''pytest'' ''exit-code'' None))) = 0"
  by (simp add: evaluate_def const_env_def mk_spec_def prepare_eval_dir_def Let_def score_eval)

lemma pick_winner_no_positive:
  assumes "length results = length evals" and "\<forall>e\<in>set evals. e_score e \<le> 0"
  shows "pick_winner results evals = Inr None"
proof (cases "evals = []")
  case True
  then show ?thesis by (simp add: pick_winner_empty)
next
  case False
  from pick_winner_paired [OF assms(1) False] obtain i where
    i: "i < length evals"
    and res: "pick_winner results evals =
       Inr (if 0 < e_score (evals ! i) then Some (r_task_id (results ! i)) else None)"
    by blast
  from i assms(2) have "e_score (evals ! i) \<le> 0" by simp
  with res show ?thesis by simp
qed

theorem evolve_step_exhausts_witness:
  "length (rs_generations (state (snd (evolve_step
       (scenario (scripted_cli [analysis_reply]) (const_env (Exited (Some 1) ''boom'' [])))
       1 ''Fix the bug'' (initial_world ''run''))))) = 2
   \<and> length (rs_hypotheses (state (snd (evolve_step
       (scenario (scripted_cli [analysis_reply]) (const_env (Exited (Some 1) ''boom'' [])))
       1 ''Fix the bug'' (initial_world ''run''))))) = 1
   \<and> map (\<lambda>r. g_hypothesis r = None) (rs_generations (state (snd (evolve_step
       (scenario (scripted_cli [analysis_reply]) (const_env (Exited (Some 1) ''boom'' [])))
       1 ''Fix the bug'' (initial_world ''run''))))) = [False, True]
   \<and> length (dispatched (snd (evolve_step
       (scenario (scripted_cli [analysis_reply]) (const_env (Exited (Some 1) ''boom'' [])))
       1 ''Fix the bug'' (initial_world ''run'')))) = 2
   \<and> fst (evolve_step
       (scenario (scripted_cli [analysis_reply]) (const_env (Exited (Some 1) ''boom'' [])))
       1 ''Fix the bug'' (initial_world ''run'')) = Inr None
   \<and> fst (evolve_step
       (scenario (scripted_cli [analysis_reply]) (const_env (Exited (Some 1) ''boom'' [])))
       1 ''Fix the bug'' (initial_world ''run''))
     = Inr (g_winner_id (last (rs_generations (state (snd (evolve_step
       (scenario (scripted_cli [analysis_reply]) (const_env (Exited (Some 1) ''boom'' [])))
       1 ''Fix the bug'' (initial_world ''run'')))))))"
proof -
  let ?cfg = "scenario (scripted_cli [analysis_reply]) (const_env (Exited (Some 1) ''boom'' []))"
  let ?w = "initial_world ''run''"
  have G: "1 \<le> max_generations ?cfg"
    by (simp add: scenario_def)
  have G2: "max_generations ?cfg = 2"
    by (simp add: scenario_def)
  have H1: "\<forall>k tasks. length (dispatched ?w) \<le> k \<and> k < length (dispatched ?w) + max_generations ?cfg \<longrightarrow>
        (\<exists>results. execute_generation ?cfg k tasks = Inr results
          \<and> (\<forall>b. best_eval (fst (run_eval (eval_world ?cfg) results (eval ?cfg))) = Some b
                \<longrightarrow> \<not> e_passed b))"
    using failing_world_jobs by blast
  have c0: "cli_calls ?w = 0"
    by (simp add: initial_world_def)
  have cli: "claude_cli ?cfg = scripted_cli [analysis_reply]"
    by (simp add: scenario_def)
  have H2: "\<forall>k p rs es g. cli_calls ?w \<le> k \<and> k + 1 < cli_calls ?w + max_generations ?cfg \<longrightarrow>
        (\<exists>h. analyze (claude_cli ?cfg) (fmt_score ?cfg) k p rs es g = Inr h)"
  proof (intro allI impI)
    fix k p rs es g
    assume "cli_calls ?w \<le> k \<and> k + 1 < cli_calls ?w + max_generations ?cfg"
    then have "k = 0"
      unfolding c0 G2 by simp
    then show "\<exists>h. analyze (claude_cli ?cfg) (fmt_score ?cfg) k p rs es g = Inr h"
      unfolding cli by (simp add: analyze_scripted)
  qed
  from evolve_step_exhausts [OF G H1 H2, of 1 "''Fix the bug''"] obtain v w' recs where
    r0: "evolve_step ?cfg 1 ''Fix the bug'' ?w = (Inr v, w')"
    and r1: "rs_generations (state w') = rs_generations (state ?w) @ recs"
    and r2: "length recs = max_generations ?cfg"
    and r3: "\<forall>i<max_generations ?cfg. g_generation (recs ! i) = int i
                \<and> g_eval_results (recs ! i)
                    = fst (run_eval (eval_world ?cfg) (g_results (recs ! i)) (eval ?cfg))
                \<and> (g_hypothesis (recs ! i) = None \<longleftrightarrow> i + 1 = max_generations ?cfg)"
    and r5: "length (rs_hypotheses (state w')) = length (rs_hypotheses (state ?w)) + (max_generations ?cfg - 1)"
    and r4: "v = g_winner_id (last recs)"
    and r7: "pick_winner (g_results (last recs)) (g_eval_results (last recs)) = Inr v"
    and r6: "length (dispatched w') = length (dispatched ?w) + max_generations ?cfg"
    by (elim exE conjE) (rule that; assumption)
  have w0: "rs_generations (state ?w) = []" "rs_hypotheses (state ?w) = []" "dispatched ?w = []"
    by (simp_all add: initial_world_def)
  from r2 G2 obtain x y where recs: "recs = [x, y]"
    by (cases recs; cases "tl recs"; cases "tl (tl recs)") auto
  have "g_hypothesis (recs ! 0) = None \<longleftrightarrow> (0::nat) + 1 = 2"
    using r3 unfolding G2 by (metis zero_less_numeral)
  then have hx: "g_hypothesis x \<noteq> None"
    by (simp add: recs)
  have "g_hypothesis (recs ! 1) = None \<longleftrightarrow> (1::nat) + 1 = 2"
    using r3 unfolding G2 by (metis one_less_numeral_iff semiring_norm(76))
  then have hy: "g_hypothesis y = None"
    by (simp add: recs)
  have cfg: "eval_world ?cfg = const_env (Exited (Some 1) ''boom'' [])"
    "eval ?cfg = mk_spec ''pytest'' ''exit-code'' None"
    by (simp_all add: scenario_def)
  have "g_eval_results (recs ! 1) = fst (run_eval (eval_world ?cfg) (g_results (recs ! 1)) (eval ?cfg))"
    using r3 unfolding G2 by (metis one_less_numeral_iff semiring_norm(76))
  then have ey: "g_eval_results y = fst (run_eval (const_env (Exited (Some 1) ''boom'' []))
      (g_results y) (mk_spec ''pytest'' ''exit-code'' None))"
    unfolding cfg by (simp add: recs)
  have "pick_winner (g_results y) (g_eval_results y) = Inr None"
    unfolding ey by (rule pick_winner_no_positive) (simp_all add: run_eval_def failing_world_score)
  with r7 have vn: "v = None"
    by (simp add: recs)
  show ?thesis
    unfolding r0 using vn by (simp add: r1 r5 r6 r4 w0 G2 recs hx hy)
qed

section \<open>Oracle failures\<close>

text \<open>One pass of the loop body whose analysis raises: the exception leaves the body before
  the generation's record is appended.\<close>

lemma evolve_generation_analysis_raises:
  assumes ex: "execute_generation cfg (length (dispatched w)) (make_population cfg step base gen hyps w)
                 = Inr results"
    and nb: "\<forall>b. best_eval (fst (run_eval (eval_world cfg) results (eval cfg))) = Some b \<longrightarrow> \<not> e_passed b"
    and left: "Suc gen < max_generations cfg"
    and an: "analyze (claude_cli cfg) (fmt_score cfg) (cli_calls w) base results
               (fst (run_eval (eval_world cfg) results (eval cfg))) (int gen) = Inl e"
  shows "\<exists>w'. evolve_generation cfg step base gen hyps w = (Inl e, w')
    \<and> rs_generations (state w') = rs_generations (state w)
    \<and> rs_hypotheses (state w') = rs_hypotheses (state w)
    \<and> rs_id (state w') = rs_id (state w)
    \<and> dispatched w' = dispatched w @ [make_population cfg step base gen hyps w]
    \<and> cli_calls w' = cli_calls w + 1
    \<and> applied w' = applied w"
proof -
  let ?w1 = "save_state (w\<lparr>state := (state w)\<lparr>rs_current_generation := int gen\<rparr>\<rparr>)"
  have pop: "make_population cfg step base gen hyps ?w1 = make_population cfg step base gen hyps w"
    by (rule make_population_cong) simp
  obtain v where pw: "pick_winner results (fst (run_eval (eval_world cfg) results (eval cfg))) = Inr v"
    using pick_winner_total [OF run_eval_length] by blast
  have lt: "int gen < int (max_generations cfg) - 1"
    using left by simp
  show ?thesis
  proof (cases "best_eval (fst (run_eval (eval_world cfg) results (eval cfg)))")
    case None
    then show ?thesis
      using ex pw lt an
      by (simp add: evolve_generation_def analyze_and_record_def Let_def pop)
  next
    case (Some b)
    with nb have "\<not> e_passed b" by simp
    with Some show ?thesis
      using ex pw lt an
      by (simp add: evolve_generation_def analyze_and_record_def Let_def pop)
  qed
qed

lemma evolve_step_first_raises:
  assumes "evolve_generation cfg step base 0 [] w = (Inl e, w')"
    and "0 < max_generations cfg"
  shows "evolve_step cfg step base w = (Inl e, w')"
proof -
  have "[0..<max_generations cfg] = 0 # [1..<max_generations cfg]"
    using assms(2) by (simp add: upt_conv_Cons)
  then show ?thesis
    using assms by (simp add: evolve_step_def)
qed

text \<open>\<open>run\<close> turns an exception of its body into the status \<open>FAILED\<close>, saved.\<close>

lemma run_failed:
  assumes "run_body cfg (save_state (w\<lparr>state := (state w)\<lparr>rs_status := RUN_RUNNING\<rparr>\<rparr>)) = (Inl e, w1)"
    and "e \<noteq> OutsideModel" and "e \<noteq> KeyboardInterrupt"
  shows "run cfg w = Some (save_state (w1\<lparr>state := (state w1)\<lparr>rs_status := FAILED\<rparr>\<rparr>))"
  using assms by (cases e) (simp_all add: run_def Let_def)

lemma analyze_not_json:
  assumes "claude_query cli k (analysis_prompt prompt
             (concat (map (result_block fmt) (sort_by_score (zip results evals))))) = Inr text"
    and "json_loads (strip_fence text) = Inl JSONDecodeError"
  shows "analyze cli fmt k prompt results evals g = Inl JSONDecodeError"
  using assms by (simp add: analyze_def Let_def bind_e_def)


text \<open>
  The whole run when the first analysis it asks for raises: nothing is recorded for the
  generation, nothing more is dispatched, and the run ends \<open>FAILED\<close>.
\<close>

lemma run_first_analysis_raises:
  assumes ready: "ensure_ready cfg = None"
    and steps: "decompose (claude_cli cfg) (cli_calls w) (plan cfg) = Inr (s # steps)"
    and more: "1 < max_generations cfg"
    and ex: "execute_generation cfg (length (dispatched w))
               (make_population cfg (ps_index s) (ps_prompt s) 0 [] w) = Inr results"
    and nb: "\<forall>b. best_eval (fst (run_eval (eval_world cfg) results (eval cfg))) = Some b \<longrightarrow> \<not> e_passed b"
    and an: "analyze (claude_cli cfg) (fmt_score cfg) (cli_calls w + 1) (ps_prompt s) results
               (fst (run_eval (eval_world cfg) results (eval cfg))) 0 = Inl e"
    and e: "e \<noteq> OutsideModel" "e \<noteq> KeyboardInterrupt"
  shows "\<exists>w'. run cfg w = Some w'
    \<and> rs_status (state w') = FAILED
    \<and> rs_generations (state w') = rs_generations (state w)
    \<and> rs_hypotheses (state w') = rs_hypotheses (state w)
    \<and> dispatched w' = dispatched w @ [make_population cfg (ps_index s) (ps_prompt s) 0 [] w]
    \<and> applied w' = applied w
    \<and> map_of (files w') (rs_id (state w')) = Some (JsonText (serialize_state (state w')))"
proof -
  let ?w0 = "save_state (w\<lparr>state := (state w)\<lparr>rs_status := RUN_RUNNING\<rparr>\<rparr>)"
  let ?w1 = "save_state (?w0\<lparr>cli_calls := cli_calls ?w0 + 1,
                             state := (state ?w0)\<lparr>rs_plan_steps := s # steps\<rparr>\<rparr>)"
  let ?w2 = "save_state (?w1\<lparr>state := (state ?w1)\<lparr>rs_current_step := ps_index s\<rparr>\<rparr>)"
  let ?tasks = "make_population cfg (ps_index s) (ps_prompt s) 0 [] w"
  have pop: "make_population cfg (ps_index s) (ps_prompt s) 0 [] ?w2 = ?tasks"
    by (rule make_population_cong) simp
  have d2: "dispatched ?w2 = dispatched w" and c2: "cli_calls ?w2 = cli_calls w + 1"
    and a2: "applied ?w2 = applied w"
    and g2: "rs_generations (state ?w2) = rs_generations (state w)"
    and h2: "rs_hypotheses (state ?w2) = rs_hypotheses (state w)"
    by simp_all
  have ex2: "execute_generation cfg (length (dispatched ?w2))
      (make_population cfg (ps_index s) (ps_prompt s) 0 [] ?w2) = Inr results"
    unfolding pop d2 by (rule ex)
  have left: "Suc 0 < max_generations cfg"
    using more by simp
  have an2: "analyze (claude_cli cfg) (fmt_score cfg) (cli_calls ?w2) (ps_prompt s) results
      (fst (run_eval (eval_world cfg) results (eval cfg))) (int 0) = Inl e"
    unfolding c2 using an by simp
  from evolve_generation_analysis_raises [OF ex2 nb left an2] obtain w3 where
    gen: "evolve_generation cfg (ps_index s) (ps_prompt s) 0 [] ?w2 = (Inl e, w3)"
    and g3: "rs_generations (state w3) = rs_generations (state ?w2)"
    and h3: "rs_hypotheses (state w3) = rs_hypotheses (state ?w2)"
    and d3: "dispatched w3 = dispatched ?w2 @ [make_population cfg (ps_index s) (ps_prompt s) 0 [] ?w2]"
    and a3: "applied w3 = applied ?w2"
    by (elim exE conjE) (rule that; assumption)
  have pos: "0 < max_generations cfg"
    using more by simp
  have step: "evolve_step cfg (ps_index s) (ps_prompt s) ?w2 = (Inl e, w3)"
    using gen pos by (rule evolve_step_first_raises)
  have rs: "run_steps cfg (s # steps) ?w1 = (Inl e, w3)"
    using step by (simp add: Let_def)
  have c0: "cli_calls ?w0 = cli_calls w"
    by simp
  have body: "run_body cfg ?w0 = (Inl e, w3)"
    using rs steps by (simp add: run_body_def ready Let_def)
  have run: "run cfg w = Some (save_state (w3\<lparr>state := (state w3)\<lparr>rs_status := FAILED\<rparr>\<rparr>))"
    using body e by (rule run_failed)
  have d3': "dispatched w3 = dispatched w @ [?tasks]"
    unfolding d3 pop d2 by (rule refl)
  have g3': "rs_generations (state w3) = rs_generations (state w)"
    unfolding g3 g2 by (rule refl)
  have h3': "rs_hypotheses (state w3) = rs_hypotheses (state w)"
    unfolding h3 h2 by (rule refl)
  have a3': "applied w3 = applied w"
    unfolding a3 a2 by (rule refl)
  show ?thesis
    unfolding run
    by (simp add: g3' h3' d3' a3' save_def map_of_write_file)
qed

text \<open>The run when the plan cannot be decomposed: nothing is dispatched at all.\<close>

lemma run_decompose_raises:
  assumes ready: "ensure_ready cfg = None"
    and steps: "decompose (claude_cli cfg) (cli_calls w) (plan cfg) = Inl e"
    and e: "e \<noteq> OutsideModel" "e \<noteq> KeyboardInterrupt"
  shows "\<exists>w'. run cfg w = Some w'
    \<and> rs_status (state w') = FAILED
    \<and> rs_plan_steps (state w') = rs_plan_steps (state w)
    \<and> rs_generations (state w') = rs_generations (state w)
    \<and> dispatched w' = dispatched w"
proof -
  let ?w0 = "save_state (w\<lparr>state := (state w)\<lparr>rs_status := RUN_RUNNING\<rparr>\<rparr>)"
  have c0: "cli_calls ?w0 = cli_calls w"
    by simp
  have body: "run_body cfg ?w0 = (Inl e, ?w0\<lparr>cli_calls := cli_calls ?w0 + 1\<rparr>)"
    using steps by (simp add: run_body_def ready)
  have run: "run cfg w = Some (save_state ((?w0\<lparr>cli_calls := cli_calls ?w0 + 1\<rparr>)
      \<lparr>state := (state (?w0\<lparr>cli_calls := cli_calls ?w0 + 1\<rparr>))\<lparr>rs_status := FAILED\<rparr>\<rparr>))"
    using body e by (rule run_failed)
  show ?thesis
    unfolding run by simp
qed


subsection \<open>The code fence\<close>

lemma split_lines_nonempty: "split_lines s \<noteq> []"
  by (induction s) (auto split: list.splits)

lemma split_lines_no_newline: "CHR 0x0A \<notin> set s \<Longrightarrow> split_lines s = [s]"
  by (induction s) auto

lemma split_lines_append:
  "split_lines (b @ CHR 0x0A # c) = split_lines b @ split_lines c"
proof (induction b)
  case Nil
  show ?case by simp
next
  case (Cons x b)
  obtain l ls where l: "split_lines b = l # ls"
    using split_lines_nonempty [of b] by (cases "split_lines b") auto
  show ?case
    by (simp add: Cons.IH l)
qed

lemma join_Cons_Cons: "join sep ((x # l) # ls) = x # join sep (l # ls)"
  by (cases ls) simp_all

lemma join_split_lines: "join [CHR 0x0A] (split_lines s) = s"
proof (induction s)
  case Nil
  show ?case by simp
next
  case (Cons x s)
  obtain l ls where l: "split_lines s = l # ls"
    using split_lines_nonempty [of s] by (cases "split_lines s") auto
  show ?case
    using Cons.IH by (simp add: l join_Cons_Cons)
qed

lemma strip_id:
  assumes "s \<noteq> []" "\<not> is_py_space (hd s)" "\<not> is_py_space (last s)"
  shows "strip s = s"
proof -
  have "dropWhile is_py_space s = s"
    using assms(1,2) by (cases s) simp_all
  moreover have "dropWhile is_py_space (rev s) = rev s"
    using assms(1,3) by (cases "rev s") (simp_all add: last_rev [symmetric] del: last_rev)
  ultimately show ?thesis
    by (simp add: strip_def rstrip_def)
qed

lemma strip_fence_fenced:
  assumes "CHR 0x0A \<notin> set tag"
  shows "strip_fence (''```'' @ tag @ [CHR 0x0A] @ body @ [CHR 0x0A] @ ''```'') = body"
proof -
  let ?text = "''```'' @ tag @ [CHR 0x0A] @ body @ [CHR 0x0A] @ ''```''"
  have s: "strip ?text = ?text"
    by (rule strip_id) (simp_all add: is_py_space_def)
  have "?text = (''```'' @ tag) @ CHR 0x0A # (body @ CHR 0x0A # ''```'')"
    by simp
  then have "split_lines ?text = split_lines (''```'' @ tag) @ split_lines body @ split_lines ''```''"
    by (simp only: split_lines_append)
  moreover have "split_lines (''```'' @ tag) = [''```'' @ tag]"
    using assms by (intro split_lines_no_newline) simp
  moreover have "split_lines ''```'' = [''```'']"
    by simp
  ultimately have "butlast (tl (split_lines ?text)) = split_lines body"
    by (simp add: butlast_append)
  then show ?thesis
    unfolding strip_fence_def s by (simp add: join_split_lines)
qed

text \<open>
  C9, as the code has it. A code fence around the oracle's analysis is stripped before the
  text is decoded. When the text left is no JSON, \<open>analyze\<close> raises; the exception leaves
  the generation loop and the steps, and \<open>run\<close> ends with the status \<open>FAILED\<close>, saved: no
  record is appended for the generation, no hypothesis is made, nothing more is dispatched
  and no winner applied. So does a plan decomposition whose extraction is exhausted
  (\<open>ValueError\<close>): both are fatal to the run.
\<close>

theorem malformed_oracle_reply_fails_run:
  "(CHR 0x0A \<notin> set tag \<longrightarrow>
      strip_fence (''```'' @ tag @ [CHR 0x0A] @ body @ [CHR 0x0A] @ ''```'') = body)
 \<and> (ensure_ready cfg = None
      \<and> decompose (claude_cli cfg) (cli_calls w) (plan cfg) = Inr (s # steps)
      \<and> 1 < max_generations cfg
      \<and> execute_generation cfg (length (dispatched w))
           (make_population cfg (ps_index s) (ps_prompt s) 0 [] w) = Inr results
      \<and> (\<forall>b. best_eval (fst (run_eval (eval_world cfg) results (eval cfg))) = Some b \<longrightarrow> \<not> e_passed b)
      \<and> claude_query (claude_cli cfg) (cli_calls w + 1)
           (analysis_prompt (ps_prompt s)
              (concat (map (result_block (fmt_score cfg))
                 (sort_by_score (zip results (fst (run_eval (eval_world cfg) results (eval cfg))))))))
           = Inr answer
      \<and> json_loads (strip_fence answer) = Inl JSONDecodeError
    \<longrightarrow> (\<exists>w'. run cfg w = Some w'
          \<and> rs_status (state w') = FAILED
          \<and> rs_generations (state w') = rs_generations (state w)
          \<and> rs_hypotheses (state w') = rs_hypotheses (state w)
          \<and> dispatched w' = dispatched w @ [make_population cfg (ps_index s) (ps_prompt s) 0 [] w]
          \<and> applied w' = applied w
          \<and> map_of (files w') (rs_id (state w')) = Some (JsonText (serialize_state (state w')))))
 \<and> (ensure_ready cfg = None
      \<and> claude_query (claude_cli cfg) (cli_calls w) (decompose_prompt (plan cfg)) = Inr reply
      \<and> extract_json_array reply = Inl ValueError
    \<longrightarrow> (\<exists>w'. run cfg w = Some w'
          \<and> rs_status (state w') = FAILED
          \<and> rs_plan_steps (state w') = rs_plan_steps (state w)
          \<and> rs_generations (state w') = rs_generations (state w)
          \<and> dispatched w' = dispatched w))"
proof (intro conjI impI)
  assume "CHR 0x0A \<notin> set tag"
  then show "strip_fence (''```'' @ tag @ [CHR 0x0A] @ body @ [CHR 0x0A] @ ''```'') = body"
    by (rule strip_fence_fenced)
next
  let ?evals = "fst (run_eval (eval_world cfg) results (eval cfg))"
  assume a: "ensure_ready cfg = None
      \<and> decompose (claude_cli cfg) (cli_calls w) (plan cfg) = Inr (s # steps)
      \<and> 1 < max_generations cfg
      \<and> execute_generation cfg (length (dispatched w))
           (make_population cfg (ps_index s) (ps_prompt s) 0 [] w) = Inr results
      \<and> (\<forall>b. best_eval ?evals = Some b \<longrightarrow> \<not> e_passed b)
      \<and> claude_query (claude_cli cfg) (cli_calls w + 1)
           (analysis_prompt (ps_prompt s)
              (concat (map (result_block (fmt_score cfg)) (sort_by_score (zip results ?evals)))))
           = Inr answer
      \<and> json_loads (strip_fence answer) = Inl JSONDecodeError"
  then have an: "analyze (claude_cli cfg) (fmt_score cfg) (cli_calls w + 1) (ps_prompt s) results
      ?evals 0 = Inl JSONDecodeError"
    by (intro analyze_not_json [of _ _ _ _ _ _ answer]) simp_all
  from a have ready: "ensure_ready cfg = None"
    and steps: "decompose (claude_cli cfg) (cli_calls w) (plan cfg) = Inr (s # steps)"
    and more: "1 < max_generations cfg"
    and ex: "execute_generation cfg (length (dispatched w))
           (make_population cfg (ps_index s) (ps_prompt s) 0 [] w) = Inr results"
    and nb: "\<forall>b. best_eval ?evals = Some b \<longrightarrow> \<not> e_passed b"
    by simp_all
  show "\<exists>w'. run cfg w = Some w'
          \<and> rs_status (state w') = FAILED
          \<and> rs_generations (state w') = rs_generations (state w)
          \<and> rs_hypotheses (state w') = rs_hypotheses (state w)
          \<and> dispatched w' = dispatched w @ [make_population cfg (ps_index s) (ps_prompt s) 0 [] w]
          \<and> applied w' = applied w
          \<and> map_of (files w') (rs_id (state w')) = Some (JsonText (serialize_state (state w')))"
    by (rule run_first_analysis_raises [OF ready steps more ex nb an]) simp_all
next
  assume a: "ensure_ready cfg = None
      \<and> claude_query (claude_cli cfg) (cli_calls w) (decompose_prompt (plan cfg)) = Inr reply
      \<and> extract_json_array reply = Inl ValueError"
  then have d: "decompose (claude_cli cfg) (cli_calls w) (plan cfg) = Inl ValueError"
    by (simp add: decompose_def bind_e_def)
  from a have ready: "ensure_ready cfg = None"
    by simp
  show "\<exists>w'. run cfg w = Some w'
          \<and> rs_status (state w') = FAILED
          \<and> rs_plan_steps (state w') = rs_plan_steps (state w)
          \<and> rs_generations (state w') = rs_generations (state w)
          \<and> dispatched w' = dispatched w"
    by (rule run_decompose_raises [OF ready d]) simp_all
qed


subsection \<open>A run whose analysis is refused\<close>

lemma json_loads_plan_reply:
  "json_loads plan_reply =
     Inr (JArr [JObj [(''index'', JInt 0), (''description'', JStr ''Fix''),
                      (''prompt'', JStr ''Fix the bug'')]])"
  by (simp add: plan_reply_def json_eval)

lemma json_loads_refusal: "json_loads refusal_reply = Inl JSONDecodeError"
  by (simp add: refusal_reply_def json_eval)

lemma json_loads_fenced_refusal: "json_loads fenced_refusal_reply = Inl JSONDecodeError"
  by (simp add: fenced_refusal_reply_def refusal_reply_def json_eval)

lemma strip_plan_reply: "strip plan_reply = plan_reply"
  by (rule strip_id) (simp_all add: plan_reply_def is_py_space_def)

lemma strip_refusal: "strip refusal_reply = refusal_reply"
  by (rule strip_id) (simp_all add: refusal_reply_def is_py_space_def)

lemma decompose_plan_reply:
  "decompose (scripted_cli (plan_reply # replies)) 0 p =
     Inr [\<lparr>ps_index = 0, ps_description = ''Fix'', ps_prompt = ''Fix the bug''\<rparr>]"
proof -
  have q: "claude_query (scripted_cli (plan_reply # replies)) 0 (decompose_prompt p) = Inr plan_reply"
    by (simp add: claude_query_def scripted_cli_def json_loads_plan_reply)
  have nf: "\<not> prefix ''```'' plan_reply"
    by (simp add: plan_reply_def)
  have x: "extract_json_array plan_reply =
     Inr (JArr [JObj [(''index'', JInt 0), (''description'', JStr ''Fix''),
                      (''prompt'', JStr ''Fix the bug'')]])"
    by (simp add: extract_json_array_def strip_plan_reply nf json_loads_plan_reply)
  show ?thesis
    by (simp add: decompose_def q x bind_e_def iterate_def deserialize_plan_step_def
        subscript_def as_int_def as_str_def)
qed

lemma extract_refusal: "extract_json_array refusal_reply = Inl ValueError"
proof -
  have nf: "\<not> prefix ''```'' refusal_reply"
    by (simp add: refusal_reply_def)
  have sb: "search_brackets refusal_reply = None"
    by (simp add: search_brackets_def refusal_reply_def)
  show ?thesis
    by (simp add: extract_json_array_def strip_refusal nf json_loads_refusal sb)
qed

lemma strip_fence_refusal: "strip_fence refusal_reply = refusal_reply"
  by (simp add: strip_fence_def strip_refusal) (simp add: refusal_reply_def)

lemma failing_world_no_pass:
  "\<forall>b. best_eval (fst (run_eval (const_env (Exited (Some 1) ''boom'' []))
            (map (\<lambda>t. mk_result (t_id t) SUCCESS ''done'') tasks)
            (mk_spec ''pytest'' ''exit-code'' None))) = Some b \<longrightarrow> \<not> e_passed b"
proof -
  have "\<forall>e\<in>set (fst (run_eval (const_env (Exited (Some 1) ''boom'' []))
            (map (\<lambda>t. mk_result (t_id t) SUCCESS ''done'') tasks)
            (mk_spec ''pytest'' ''exit-code'' None))). \<not> e_passed e"
    by (simp add: run_eval_def failing_world_evaluate)
  then show ?thesis
    using best_eval_mem by blast
qed

text \<open>The scenario's run with the script of oracle replies \<open>plan_reply\<close>, then \<open>reply\<close>, when
  \<open>reply\<close> is text that stays no JSON after the fence is stripped.\<close>

lemma refused_run:
  assumes q: "json_loads reply = Inl JSONDecodeError"
    and sf: "json_loads (strip_fence reply) = Inl JSONDecodeError"
  shows "\<exists>w'. run (scenario (scripted_cli [plan_reply, reply]) (const_env (Exited (Some 1) ''boom'' [])))
               (initial_world ''run'') = Some w'
      \<and> rs_status (state w') = FAILED
      \<and> rs_generations (state w') = []
      \<and> rs_hypotheses (state w') = []
      \<and> length (dispatched w') = 1
      \<and> applied w' = []"
proof -
  let ?cfg = "scenario (scripted_cli [plan_reply, reply]) (const_env (Exited (Some 1) ''boom'' []))"
  let ?w = "initial_world ''run''"
  let ?s = "\<lparr>ps_index = 0, ps_description = ''Fix'', ps_prompt = ''Fix the bug''\<rparr>"
  let ?tasks = "make_population ?cfg (ps_index ?s) (ps_prompt ?s) 0 [] ?w"
  let ?results = "map (\<lambda>t. mk_result (t_id t) SUCCESS ''done'') ?tasks"
  have cfg: "ensure_ready ?cfg = None" "claude_cli ?cfg = scripted_cli [plan_reply, reply]"
    "plan ?cfg = ''Fix the bug''" "max_generations ?cfg = 2"
    "eval_world ?cfg = const_env (Exited (Some 1) ''boom'' [])"
    "eval ?cfg = mk_spec ''pytest'' ''exit-code'' None"
    by (simp_all add: scenario_def)
  have w0: "cli_calls ?w = 0" "dispatched ?w = []" "rs_generations (state ?w) = []"
    "rs_hypotheses (state ?w) = []" "applied ?w = []"
    by (simp_all add: initial_world_def)
  have steps: "decompose (claude_cli ?cfg) (cli_calls ?w) (plan ?cfg) = Inr [?s]"
    unfolding cfg w0 by (rule decompose_plan_reply)
  have more: "1 < max_generations ?cfg"
    unfolding cfg by simp
  have ex: "execute_generation ?cfg (length (dispatched ?w)) ?tasks = Inr ?results"
    by (simp add: scenario_def)
  have nb: "\<forall>b. best_eval (fst (run_eval (eval_world ?cfg) ?results (eval ?cfg))) = Some b
      \<longrightarrow> \<not> e_passed b"
    unfolding cfg by (rule failing_world_no_pass)
  have cq: "\<And>p. claude_query (scripted_cli [plan_reply, reply]) (0 + 1) p = Inr reply"
    by (simp add: claude_query_def scripted_cli_def q)
  have an: "analyze (claude_cli ?cfg) (fmt_score ?cfg) (cli_calls ?w + 1) (ps_prompt ?s) ?results
      (fst (run_eval (eval_world ?cfg) ?results (eval ?cfg))) 0 = Inl JSONDecodeError"
    unfolding cfg w0 by (rule analyze_not_json [OF cq sf])
  from run_first_analysis_raises [OF cfg(1) steps more ex nb an] obtain w' where
    r: "run ?cfg ?w = Some w'"
    and st: "rs_status (state w') = FAILED"
    and g: "rs_generations (state w') = rs_generations (state ?w)"
    and h: "rs_hypotheses (state w') = rs_hypotheses (state ?w)"
    and d: "dispatched w' = dispatched ?w @ [?tasks]"
    and a: "applied w' = applied ?w"
    by auto
  show ?thesis
    unfolding r using st by (simp add: g h d a w0)
qed


theorem malformed_oracle_reply_fails_run_witness:
  "strip_fence fenced_refusal_reply = refusal_reply
   \<and> (case run (scenario (scripted_cli [plan_reply, fenced_refusal_reply])
                  (const_env (Exited (Some 1) ''boom'' []))) (initial_world ''run'') of
         Some w' \<Rightarrow> rs_status (state w') = FAILED \<and> rs_generations (state w') = []
                    \<and> rs_hypotheses (state w') = [] \<and> length (dispatched w') = 1
       | None \<Rightarrow> False)
   \<and> (case run (scenario (scripted_cli [refusal_reply])
                  (const_env (Exited (Some 1) ''boom'' []))) (initial_world ''run'') of
         Some w' \<Rightarrow> rs_status (state w') = FAILED \<and> rs_plan_steps (state w') = []
                    \<and> dispatched w' = []
       | None \<Rightarrow> False)"
proof -
  let ?ew = "const_env (Exited (Some 1) ''boom'' [])"
  let ?cfg = "scenario (scripted_cli [plan_reply, fenced_refusal_reply]) ?ew"
  let ?cfg3 = "scenario (scripted_cli [refusal_reply]) ?ew"
  let ?w = "initial_world ''run''"
  let ?s = "\<lparr>ps_index = 0, ps_description = ''Fix'', ps_prompt = ''Fix the bug''\<rparr>"
  let ?tasks = "make_population ?cfg (ps_index ?s) (ps_prompt ?s) 0 [] ?w"
  let ?results = "map (\<lambda>t. mk_result (t_id t) SUCCESS ''done'') ?tasks"
  note T = malformed_oracle_reply_fails_run
    [where tag = "''text''" and body = refusal_reply and cfg = ?cfg and w = ?w and s = ?s
       and steps = "[]" and results = ?results and answer = fenced_refusal_reply]
  note T3 = malformed_oracle_reply_fails_run
    [where cfg = ?cfg3 and w = ?w and reply = refusal_reply]
  have "CHR 0x0A \<notin> set ''text''"
    by simp
  with T have "strip_fence (''```'' @ ''text'' @ [CHR 0x0A] @ refusal_reply @ [CHR 0x0A] @ ''```'')
      = refusal_reply"
    by blast
  then have fence: "strip_fence fenced_refusal_reply = refusal_reply"
    by (simp add: fenced_refusal_reply_def)
  have cfg: "ensure_ready ?cfg = None" "claude_cli ?cfg = scripted_cli [plan_reply, fenced_refusal_reply]"
    "plan ?cfg = ''Fix the bug''" "max_generations ?cfg = 2"
    "eval_world ?cfg = ?ew" "eval ?cfg = mk_spec ''pytest'' ''exit-code'' None"
    by (simp_all add: scenario_def)
  have w0: "cli_calls ?w = 0" "dispatched ?w = []" "rs_generations (state ?w) = []"
    "rs_hypotheses (state ?w) = []" "applied ?w = []" "rs_plan_steps (state ?w) = []"
    by (simp_all add: initial_world_def)
  have steps: "decompose (claude_cli ?cfg) (cli_calls ?w) (plan ?cfg) = Inr [?s]"
    unfolding cfg w0 by (rule decompose_plan_reply)
  have more: "1 < max_generations ?cfg"
    unfolding cfg by simp
  have ex: "execute_generation ?cfg (length (dispatched ?w)) ?tasks = Inr ?results"
    by (simp add: scenario_def)
  have nb: "\<forall>b. best_eval (fst (run_eval (eval_world ?cfg) ?results (eval ?cfg))) = Some b
      \<longrightarrow> \<not> e_passed b"
    unfolding cfg by (rule failing_world_no_pass)
  have cq: "\<And>p. claude_query (claude_cli ?cfg) (cli_calls ?w + 1) p = Inr fenced_refusal_reply"
    unfolding cfg w0 by (simp add: claude_query_def scripted_cli_def json_loads_fenced_refusal)
  have sf: "json_loads (strip_fence fenced_refusal_reply) = Inl JSONDecodeError"
    unfolding fence by (rule json_loads_refusal)
  from T cfg(1) steps more ex nb cq sf obtain w' where
    r: "run ?cfg ?w = Some w'"
    and st: "rs_status (state w') = FAILED"
    and g: "rs_generations (state w') = rs_generations (state ?w)"
    and h: "rs_hypotheses (state w') = rs_hypotheses (state ?w)"
    and d: "dispatched w' = dispatched ?w @ [?tasks]"
    by blast
  have one: "(case run ?cfg ?w of
         Some w' \<Rightarrow> rs_status (state w') = FAILED \<and> rs_generations (state w') = []
                    \<and> rs_hypotheses (state w') = [] \<and> length (dispatched w') = 1
       | None \<Rightarrow> False)"
    unfolding r using st by (simp add: g h d w0)
  have cfg3: "ensure_ready ?cfg3 = None" "claude_cli ?cfg3 = scripted_cli [refusal_reply]"
    by (simp_all add: scenario_def)
  have cq3: "claude_query (claude_cli ?cfg3) (cli_calls ?w) (decompose_prompt (plan ?cfg3))
      = Inr refusal_reply"
    unfolding cfg3 w0 by (simp add: claude_query_def scripted_cli_def json_loads_refusal)
  from T3 cfg3(1) cq3 extract_refusal obtain w3 where
    r3: "run ?cfg3 ?w = Some w3"
    and st3: "rs_status (state w3) = FAILED"
    and p3: "rs_plan_steps (state w3) = rs_plan_steps (state ?w)"
    and d3: "dispatched w3 = dispatched ?w"
    by blast
  have two: "(case run ?cfg3 ?w of
         Some w' \<Rightarrow> rs_status (state w') = FAILED \<and> rs_plan_steps (state w') = []
                    \<and> dispatched w' = []
       | None \<Rightarrow> False)"
    unfolding r3 using st3 by (simp add: p3 d3 w0)
  from fence one two show ?thesis
    by blast
qed

text \<open>
  C9 as stated fails: in the scenario's run, where no evaluation passes and the oracle
  answers the first analysis with a sentence that is no JSON, the run does not go on with
  a degraded hypothesis. It ends \<open>FAILED\<close> with no generation recorded, the second
  generation never dispatched.
\<close>

theorem malformed_analysis_counterexample:
  "json_loads (strip_fence refusal_reply) = Inl JSONDecodeError
   \<and> (case run (scenario (scripted_cli [plan_reply, refusal_reply])
                  (const_env (Exited (Some 1) ''boom'' []))) (initial_world ''run'') of
         Some w' \<Rightarrow> rs_status (state w') = FAILED \<and> rs_generations (state w') = []
                    \<and> rs_hypotheses (state w') = [] \<and> length (dispatched w') = 1
                    \<and> applied w' = []
       | None \<Rightarrow> False)"
proof -
  have sf: "json_loads (strip_fence refusal_reply) = Inl JSONDecodeError"
    unfolding strip_fence_refusal by (rule json_loads_refusal)
  from refused_run [OF json_loads_refusal sf] obtain w' where
    "run (scenario (scripted_cli [plan_reply, refusal_reply])
          (const_env (Exited (Some 1) ''boom'' []))) (initial_world ''run'') = Some w'"
    "rs_status (state w') = FAILED" "rs_generations (state w') = []"
    "rs_hypotheses (state w') = []" "length (dispatched w') = 1" "applied w' = []"
    by blast
  with sf show ?thesis
    by simp
qed

end
